theory Spec2Isabelle
  imports Complex_Main "HOL-Library.Multiset"
begin

section \<open>Data loading and batching for Tacotron 2 (tacotron2/data\_utils.py)\<close>

text \<open>
  A shallow embedding of \<^verbatim>\<open>data_utils.py\<close>: the two example loaders
  (\<^verbatim>\<open>PPG_MelLoader\<close>, \<^verbatim>\<open>TextMelLoader\<close>) and the batch collator
  \<^verbatim>\<open>TextMelCollate\<close>. Every exception the Python can raise is a value of
  \<open>py_error\<close>; a function that can raise returns \<open>py_error + 'a\<close>.
  Library calls whose code is not part of the file (\<^verbatim>\<open>torch.sort\<close>, the random
  generator, the file system, the speaker encoder, the STFT) are parameters of the
  functions that call them.
\<close>

subsection \<open>Errors and tensors\<close>

datatype py_error =
    AttributeError string
  | IndexError
  | ValueError string
  | AssertionError string
  | ZeroDivisionError
  | RuntimeError
  | FileNotFoundError

text \<open>
  A tensor is its shape and its cells. Cells outside the shape are never read. Floating
  point cells are modelled as reals: the code only stores \<open>0\<close>, \<open>1\<close> and copies.
\<close>

record 'a tensor2 =
  size0 :: nat
  size1 :: nat
  at2 :: "nat \<Rightarrow> nat \<Rightarrow> 'a"

record 'a tensor3 =
  dim0 :: nat
  dim1 :: nat
  dim2 :: nat
  at3 :: "nat \<Rightarrow> nat \<Rightarrow> nat \<Rightarrow> 'a"

text \<open>\<^verbatim>\<open>torch.XTensor(a, b)\<close> followed by \<^verbatim>\<open>.zero_()\<close>.\<close>

definition zeros2 :: "nat \<Rightarrow> nat \<Rightarrow> ('a::zero) tensor2" where
  "zeros2 a b = \<lparr>size0 = a, size1 = b, at2 = (\<lambda>i j. 0)\<rparr>"

definition zeros3 :: "nat \<Rightarrow> nat \<Rightarrow> nat \<Rightarrow> ('a::zero) tensor3" where
  "zeros3 a b c = \<lparr>dim0 = a, dim1 = b, dim2 = c, at3 = (\<lambda>i k j. 0)\<rparr>"

text \<open>
  One example of a batch: \<^verbatim>\<open>(text_normalized, mel_normalized)\<close>, a 1-D integer
  tensor and a 2-D float tensor (channels, frames).
\<close>

type_synonym example = "int list \<times> real tensor2"

subsection \<open>TextMelCollate\<close>

text \<open>
  What \<^verbatim>\<open>torch.sort(lengths, dim=0, descending=True)\<close> promises for its pair
  (values, indices): the indices are a permutation of the positions, the values are the
  input read at the indices, and the values are in descending order. The call does not
  pass \<^verbatim>\<open>stable=True\<close>, so the order of equal values is left to the library.
\<close>

definition sort_desc_ok :: "int list \<Rightarrow> int list \<times> nat list \<Rightarrow> bool" where
  "sort_desc_ok xs out =
     (sort (snd out) = [0..<length xs] \<and>
      fst out = map (\<lambda>k. xs ! k) (snd out) \<and>
      sorted (rev (fst out)))"

text \<open>Python's normalisation of a slice start \<open>s\<close> on a dimension of \<open>len\<close> cells.\<close>

definition slice_start :: "int \<Rightarrow> nat \<Rightarrow> nat" where
  "slice_start s len =
     (if s < 0 then nat (max 0 (int len + s)) else min (nat s) len)"

text \<open>\<^verbatim>\<open>max([...])\<close>: a value error on the empty list.\<close>

fun py_max :: "int list \<Rightarrow> py_error + int" where
  "py_max [] = Inl (ValueError ''max() arg is an empty sequence'')"
| "py_max (x # xs) = Inr (fold max xs x)"

text \<open>
  Lines 183--185: round the target length up to a multiple of
  \<^verbatim>\<open>n_frames_per_step\<close>. Python's \<^verbatim>\<open>%\<close> on integers is \<open>mod\<close> on \<open>int\<close>
  (the sign of the divisor), and raises on a zero divisor.
\<close>

definition round_target_len :: "int \<Rightarrow> int \<Rightarrow> py_error + int" where
  "round_target_len n_frames_per_step max_target_len =
     (if n_frames_per_step = 0 then Inl ZeroDivisionError
      else if max_target_len mod n_frames_per_step \<noteq> 0 then
        (let m = max_target_len + (n_frames_per_step - max_target_len mod n_frames_per_step)
         in if m mod n_frames_per_step = 0 then Inr m
            else Inl (AssertionError []))
      else Inr max_target_len)"

text \<open>
  Lines 176--178: the loop over \<^verbatim>\<open>range(len(ids_sorted_decreasing))\<close>; \<open>i\<close> is the
  row, \<open>k\<close> the index \<^verbatim>\<open>ids_sorted_decreasing[i]\<close>. The slice
  \<^verbatim>\<open>text_padded[i, :len]\<close> has \<open>min len W\<close> cells; the source is copied when it
  has as many cells, or a single one (broadcast).
\<close>

fun text_loop :: "example list \<Rightarrow> nat list \<Rightarrow> nat \<Rightarrow> int tensor2 \<Rightarrow> py_error + int tensor2" where
  "text_loop batch [] i text_padded = Inr text_padded"
| "text_loop batch (k # ids) i text_padded =
     (if length batch \<le> k then Inl IndexError
      else let txt = fst (batch ! k) in
        if size0 text_padded \<le> i then Inl IndexError
        else if \<not> (length txt \<le> size1 text_padded \<or> length txt = 1) then Inl RuntimeError
        else text_loop batch ids (Suc i)
          (text_padded\<lparr>at2 := (\<lambda>a j.
             if a = i \<and> j < min (length txt) (size1 text_padded) then txt ! j
             else at2 text_padded a j)\<rparr>))"

text \<open>
  Lines 193--197: the second loop. \<^verbatim>\<open>mel_padded[i, :, :mel.size(1)] = mel\<close> copies
  when the channel counts agree or the source has one channel (broadcast), and the
  frames fit; \<^verbatim>\<open>gate_padded[i, mel.size(1)-1:] = 1\<close> writes from the normalised
  slice start to the end of the row. \<^verbatim>\<open>mel_padded\<close> is a \<^verbatim>\<open>FloatTensor\<close>: the copy
  converts each cell of the source to float32, \<open>float32_of\<close> (the identity when the
  source is a float32 tensor, a rounding when it is a float64 one).
\<close>

fun mel_loop :: "(real \<Rightarrow> real) \<Rightarrow> example list \<Rightarrow> nat list \<Rightarrow> nat \<Rightarrow>
    real tensor3 \<times> real tensor2 \<times> int list \<Rightarrow>
    py_error + (real tensor3 \<times> real tensor2 \<times> int list)" where
  "mel_loop float32_of batch [] i st = Inr st"
| "mel_loop float32_of batch (k # ids) i (mel_padded, gate_padded, output_lengths) =
     (if length batch \<le> k then Inl IndexError
      else let mel = snd (batch ! k) in
        if dim0 mel_padded \<le> i then Inl IndexError
        else if \<not> ((size0 mel = dim1 mel_padded \<or> size0 mel = 1) \<and>
                    (size1 mel \<le> dim2 mel_padded \<or> size1 mel = 1)) then Inl RuntimeError
        else mel_loop float32_of batch ids (Suc i)
          (mel_padded\<lparr>at3 := (\<lambda>a c j.
             if a = i \<and> c < dim1 mel_padded \<and> j < min (size1 mel) (dim2 mel_padded)
             then float32_of (at2 mel (if size0 mel = dim1 mel_padded then c else 0) j)
             else at3 mel_padded a c j)\<rparr>,
           gate_padded\<lparr>at2 := (\<lambda>a j.
             if a = i \<and> slice_start (int (size1 mel) - 1) (size1 gate_padded) \<le> j
                \<and> j < size1 gate_padded
             then 1 else at2 gate_padded a j)\<rparr>,
           output_lengths[i := int (size1 mel)]))"

record batch_out =
  text_padded :: "int tensor2"
  input_lengths :: "int list"
  mel_padded :: "real tensor3"
  gate_padded :: "real tensor2"
  output_lengths :: "int list"

text \<open>
  \<^verbatim>\<open>TextMelCollate.__call__\<close>. \<open>torch_sort\<close> is \<^verbatim>\<open>torch.sort(_, dim=0,
  descending=True)\<close>; \<open>float32_of\<close> is the conversion of a spectrogram cell to float32;
  \<open>uninit\<close> is the content of the memory that \<^verbatim>\<open>torch.LongTensor(len(batch))\<close>
  returns without initialising it.
\<close>

definition collate :: "(int list \<Rightarrow> int list \<times> nat list) \<Rightarrow> (real \<Rightarrow> real) \<Rightarrow>
    (nat \<Rightarrow> int) \<Rightarrow> int \<Rightarrow>
    example list \<Rightarrow> py_error + batch_out" where
  "collate torch_sort float32_of uninit n_frames_per_step batch =
     (case torch_sort (map (\<lambda>x. int (length (fst x))) batch) of
        (input_lengths', ids_sorted_decreasing) \<Rightarrow>
     (case input_lengths' of
        [] \<Rightarrow> Inl IndexError
      | max_input_len # _ \<Rightarrow>
     if max_input_len < 0 then Inl RuntimeError else
     (case text_loop batch ids_sorted_decreasing 0
             (zeros2 (length batch) (nat max_input_len)) of
        Inl e \<Rightarrow> Inl e
      | Inr text_padded' \<Rightarrow>
     (case batch of
        [] \<Rightarrow> Inl IndexError
      | x0 # _ \<Rightarrow>
     (case py_max (map (\<lambda>x. int (size1 (snd x))) batch) of
        Inl e \<Rightarrow> Inl e
      | Inr max_target_len0 \<Rightarrow>
     (case round_target_len n_frames_per_step max_target_len0 of
        Inl e \<Rightarrow> Inl e
      | Inr max_target_len \<Rightarrow>
     if max_target_len < 0 then Inl RuntimeError else
     (case mel_loop float32_of batch ids_sorted_decreasing 0
             (zeros3 (length batch) (size0 (snd x0)) (nat max_target_len),
              zeros2 (length batch) (nat max_target_len),
              map uninit [0..<length batch]) of
        Inl e \<Rightarrow> Inl e
      | Inr (mel_padded', gate_padded', output_lengths') \<Rightarrow>
          Inr \<lparr>text_padded = text_padded', input_lengths = input_lengths',
               mel_padded = mel_padded', gate_padded = gate_padded',
               output_lengths = output_lengths'\<rparr>)))))))"


text \<open>
  The row of the batch that the collator builds from position \<open>i\<close> of the sort's
  indices.
\<close>

definition example_of_row :: "(int list \<Rightarrow> int list \<times> nat list) \<Rightarrow> example list \<Rightarrow> nat \<Rightarrow> example" where
  "example_of_row torch_sort batch i =
     batch ! (snd (torch_sort (map (\<lambda>x. int (length (fst x))) batch)) ! i)"

text \<open>
  Row \<open>i\<close> of each of the five returned arrays is built from the example \<open>ex\<close>: its
  input length and its input right-padded with zeros, its target length, its
  spectrogram converted to float32 and right-padded with zeros (a single channel is
  broadcast), and the stop flags that depend on its target length.
\<close>

definition row_is_example :: "(real \<Rightarrow> real) \<Rightarrow> batch_out \<Rightarrow> nat \<Rightarrow> example \<Rightarrow> bool" where
  "row_is_example float32_of r i ex =
     (input_lengths r ! i = int (length (fst ex)) \<and>
      (\<forall>j \<in> {0..<size1 (text_padded r)}.
         at2 (text_padded r) i j = (if j < length (fst ex) then fst ex ! j else 0)) \<and>
      output_lengths r ! i = int (size1 (snd ex)) \<and>
      (\<forall>c \<in> {0..<dim1 (mel_padded r)}. \<forall>j \<in> {0..<dim2 (mel_padded r)}.
         at3 (mel_padded r) i c j =
           (if j < size1 (snd ex)
            then float32_of
              (at2 (snd ex) (if size0 (snd ex) = dim1 (mel_padded r) then c else 0) j)
            else 0)) \<and>
      (\<forall>j \<in> {0..<size1 (gate_padded r)}.
         at2 (gate_padded r) i j =
           (if slice_start (int (size1 (snd ex)) - 1) (size1 (gate_padded r)) \<le> j
            then 1 else 0)))"

text \<open>
  The order the specification describes, for comparison with the code: positions in
  descending order of length, equal lengths in their original order (a stable sort).
\<close>

definition stable_desc_ids :: "int list \<Rightarrow> nat list" where
  "stable_desc_ids xs = sort_key (\<lambda>k. - (xs ! k)) [0..<length xs]"

subsection \<open>Python values, string formatting\<close>

text \<open>
  The values \<^verbatim>\<open>get_ppg\<close> may be given as a speaker embedding, with the type
  \<^verbatim>\<open>type(_)\<close> returns for each, and Python's \<^verbatim>\<open>==\<close> between a type object and
  a string object: objects of different kinds are never equal.
\<close>

datatype py_value = NdArray "real list" | PyList "real list" | PyFloat real

datatype py_type = Type_ndarray | Type_list | Type_float

fun type_of :: "py_value \<Rightarrow> py_type" where
  "type_of (NdArray xs) = Type_ndarray"
| "type_of (PyList xs) = Type_list"
| "type_of (PyFloat x) = Type_float"

datatype py_obj = TypeObj py_type | StrObj string

fun py_eq :: "py_obj \<Rightarrow> py_obj \<Rightarrow> bool" where
  "py_eq (TypeObj a) (TypeObj b) = (a = b)"
| "py_eq (StrObj a) (StrObj b) = (a = b)"
| "py_eq (TypeObj a) (StrObj b) = False"
| "py_eq (StrObj a) (TypeObj b) = False"

text \<open>\<^verbatim>\<open>np.append(frame, v)\<close>: a new array, the frame followed by the flattened \<open>v\<close>.\<close>

fun np_append :: "real list \<Rightarrow> py_value \<Rightarrow> real list" where
  "np_append frame (NdArray xs) = frame @ xs"
| "np_append frame (PyList xs) = frame @ xs"
| "np_append frame (PyFloat x) = frame @ [x]"

text \<open>
  \<^verbatim>\<open>template.format(*args)\<close> for templates whose only fields are \<^verbatim>\<open>{}\<close>: each
  field takes the next argument; a field with no argument left is an index error.
\<close>

fun py_format :: "string \<Rightarrow> string list \<Rightarrow> py_error + string" where
  "py_format [] args = Inr []"
| "py_format [c] args = Inr [c]"
| "py_format (c # d # cs) args =
     (if c = CHR ''{'' \<and> d = CHR ''}'' then
        (case args of
           [] \<Rightarrow> Inl IndexError
         | a # rest \<Rightarrow>
             (case py_format cs rest of Inl e \<Rightarrow> Inl e | Inr s \<Rightarrow> Inr (a @ s)))
      else (case py_format (d # cs) args of Inl e \<Rightarrow> Inl e | Inr s \<Rightarrow> Inr (c # s)))"

text \<open>\<^verbatim>\<open>str(n)\<close> for integers.\<close>

function str_nat :: "nat \<Rightarrow> string" where
  "str_nat n =
     (if n < 10 then [char_of (48 + n)]
      else str_nat (n div 10) @ [char_of (48 + n mod 10)])"
  by pat_completeness auto
termination
  by (relation "measure id") auto

definition str_int :: "int \<Rightarrow> string" where
  "str_int i = (if i < 0 then CHR ''-'' # str_nat (nat (- i)) else str_nat (nat i))"

subsection \<open>The loaders\<close>

text \<open>
  The environment of a loader: whether \<^verbatim>\<open>assert\<close> statements run (Python's
  \<^verbatim>\<open>__debug__\<close>, false under \<^verbatim>\<open>python -O\<close>), and the calls into other modules.
  \<open>np_load_ppg\<close> and \<open>np_load_mel\<close> are \<^verbatim>\<open>np.load\<close> on a file of frame
  probabilities (frames, \<open>P\<close>) and on a file holding a spectrogram (channels, frames);
  \<open>speaker_embedding_of\<close> is \<^verbatim>\<open>VoiceEncoder().embed_utterance(preprocess_wav(_))\<close>;
  \<open>mel_spectrogram\<close> is \<^verbatim>\<open>stft.mel_spectrogram\<close> on the one-row batch followed by
  \<^verbatim>\<open>torch.squeeze(_, 0)\<close>.
\<close>

record env =
  debug :: bool
  np_load_ppg :: "string \<Rightarrow> py_error + real list list"
  np_load_mel :: "string \<Rightarrow> py_error + real tensor2"
  load_wav_to_torch :: "string \<Rightarrow> py_error + (real list \<times> int)"
  speaker_embedding_of :: "string \<Rightarrow> py_error + py_value"
  mel_spectrogram :: "real list \<Rightarrow> py_error + real tensor2"

record hparams =
  hp_max_wav_value :: real
  hp_sampling_rate :: int
  hp_load_mel_from_disk :: bool
  hp_filter_length :: nat
  hp_hop_length :: nat
  hp_win_length :: nat
  hp_n_mel_channels :: nat
  hp_mel_fmin :: real
  hp_mel_fmax :: real
  hp_text_cleaners :: "string list"
  hp_seed :: int

text \<open>
  The fields of a \<^verbatim>\<open>layers.TacotronSTFT\<close> object that \<^verbatim>\<open>data_utils.py\<close> reads.
  The constructor is in another module; it is a parameter of the loaders' constructors.
\<close>

record stft_obj =
  n_mel_channels :: nat
  stft_sampling_rate :: int

record PPG_MelLoader =
  audiopaths_and_PPG :: "string list list"
  max_wav_value :: real
  sampling_rate :: int
  load_mel_from_disk :: bool
  stft :: stft_obj

record TextMelLoader =
  audiopaths_and_text :: "string list list"
  text_cleaners :: "string list"
  tm_max_wav_value :: real
  tm_sampling_rate :: int
  tm_load_mel_from_disk :: bool
  tm_stft :: stft_obj

text \<open>
  \<^verbatim>\<open>random.shuffle(x)\<close> of the standard library: for \<open>i\<close> from \<open>len(x) - 1\<close> down to
  \<open>1\<close>, draw \<open>j = randbelow(i + 1)\<close> and swap \<open>x[i]\<close> with \<open>x[j]\<close>. The generator is a
  parameter: \<open>randbelow n g\<close> is the number drawn in state \<open>g\<close> and the next state.
\<close>

fun shuffle_from :: "(nat \<Rightarrow> 'g \<Rightarrow> nat \<times> 'g) \<Rightarrow> nat \<Rightarrow> 'a list \<Rightarrow> 'g \<Rightarrow> py_error + ('a list \<times> 'g)" where
  "shuffle_from randbelow 0 xs g = Inr (xs, g)"
| "shuffle_from randbelow (Suc i) xs g =
     (case randbelow (Suc i + 1) g of (j, g') \<Rightarrow>
        if j < length xs \<and> Suc i < length xs
        then shuffle_from randbelow i (xs[Suc i := xs ! j, j := xs ! Suc i]) g'
        else Inl IndexError)"

definition random_shuffle :: "(nat \<Rightarrow> 'g \<Rightarrow> nat \<times> 'g) \<Rightarrow> 'a list \<Rightarrow> 'g \<Rightarrow> py_error + ('a list \<times> 'g)" where
  "random_shuffle randbelow xs g = shuffle_from randbelow (length xs - 1) xs g"

text \<open>
  The constructors. \<open>load_filepaths\<close> is \<^verbatim>\<open>utils.load_filepaths_and_PPG\<close>
  (\<^verbatim>\<open>load_filepaths_and_text\<close>): the lines of the manifest, split at the delimiter;
  \<open>TacotronSTFT\<close> is the constructor \<^verbatim>\<open>layers.TacotronSTFT\<close> on the seven options
  it is given.
  \<open>random_seed s\<close> is the state of the process-wide generator after
  \<^verbatim>\<open>random.seed(s)\<close>; \<open>g0\<close> is its state before the constructor runs. The result is
  the loader and the generator's state afterwards.
\<close>

definition PPG_MelLoader_init ::
    "(string \<Rightarrow> py_error + string list list) \<Rightarrow> (hparams \<Rightarrow> py_error + stft_obj) \<Rightarrow>
     (int \<Rightarrow> 'g) \<Rightarrow> (nat \<Rightarrow> 'g \<Rightarrow> nat \<times> 'g) \<Rightarrow>
     'g \<Rightarrow> string \<Rightarrow> hparams \<Rightarrow> py_error + (PPG_MelLoader \<times> 'g)" where
  "PPG_MelLoader_init load_filepaths TacotronSTFT random_seed randbelow g0 manifest hp =
     (case load_filepaths manifest of
        Inl e \<Rightarrow> Inl e
      | Inr entries \<Rightarrow>
     (case TacotronSTFT hp of
        Inl e \<Rightarrow> Inl e
      | Inr stft_o \<Rightarrow>
     (case random_shuffle randbelow entries (random_seed (hp_seed hp)) of
        Inl e \<Rightarrow> Inl e
      | Inr (shuffled, g) \<Rightarrow>
          Inr (\<lparr>audiopaths_and_PPG = shuffled,
                max_wav_value = hp_max_wav_value hp,
                sampling_rate = hp_sampling_rate hp,
                load_mel_from_disk = hp_load_mel_from_disk hp,
                stft = stft_o\<rparr>, g))))"

definition TextMelLoader_init ::
    "(string \<Rightarrow> py_error + string list list) \<Rightarrow> (hparams \<Rightarrow> py_error + stft_obj) \<Rightarrow>
     (int \<Rightarrow> 'g) \<Rightarrow> (nat \<Rightarrow> 'g \<Rightarrow> nat \<times> 'g) \<Rightarrow>
     'g \<Rightarrow> string \<Rightarrow> hparams \<Rightarrow> py_error + (TextMelLoader \<times> 'g)" where
  "TextMelLoader_init load_filepaths TacotronSTFT random_seed randbelow g0 manifest hp =
     (case load_filepaths manifest of
        Inl e \<Rightarrow> Inl e
      | Inr entries \<Rightarrow>
     (case TacotronSTFT hp of
        Inl e \<Rightarrow> Inl e
      | Inr stft_o \<Rightarrow>
     (case random_shuffle randbelow entries (random_seed (hp_seed hp)) of
        Inl e \<Rightarrow> Inl e
      | Inr (shuffled, g) \<Rightarrow>
          Inr (\<lparr>audiopaths_and_text = shuffled,
                text_cleaners = hp_text_cleaners hp,
                tm_max_wav_value = hp_max_wav_value hp,
                tm_sampling_rate = hp_sampling_rate hp,
                tm_load_mel_from_disk = hp_load_mel_from_disk hp,
                tm_stft = stft_o\<rparr>, g))))"

definition PPG_MelLoader_len :: "PPG_MelLoader \<Rightarrow> nat" where
  "PPG_MelLoader_len self = length (audiopaths_and_PPG self)"

definition TextMelLoader_len :: "TextMelLoader \<Rightarrow> nat" where
  "TextMelLoader_len self = length (audiopaths_and_text self)"

text \<open>
  \<^verbatim>\<open>get_mel\<close>, the same text in both classes (lines 61--78 and 126--143), over the
  fields it reads. The message of the value error is built before the error is raised.
  The division by \<^verbatim>\<open>max_wav_value\<close> stands for the float division.
\<close>

definition sr_template :: string where
  "sr_template = ''{} {} SR doesn'' @ [char_of (39::nat)] @ ''t match target {} SR''"

definition mel_template :: string where
  "mel_template = ''Mel dimension mismatch: given {}, expected {}''"

definition get_mel :: "env \<Rightarrow> bool \<Rightarrow> real \<Rightarrow> stft_obj \<Rightarrow> string \<Rightarrow> py_error + real tensor2" where
  "get_mel E load_from_disk max_wav stft_o filename =
     (if \<not> load_from_disk then
        (case load_wav_to_torch E filename of
           Inl e \<Rightarrow> Inl e
         | Inr (audio, sr) \<Rightarrow>
             if sr \<noteq> stft_sampling_rate stft_o then
               (case py_format sr_template [str_int sr, str_int (stft_sampling_rate stft_o)] of
                  Inl e \<Rightarrow> Inl e
                | Inr msg \<Rightarrow> Inl (ValueError msg))
             else mel_spectrogram E (map (\<lambda>x. x / max_wav) audio))
      else
        (case np_load_mel E filename of
           Inl e \<Rightarrow> Inl e
         | Inr melspec \<Rightarrow>
             if debug E \<and> size0 melspec \<noteq> n_mel_channels stft_o then
               (case py_format mel_template
                       [str_nat (size0 melspec), str_nat (n_mel_channels stft_o)] of
                  Inl e \<Rightarrow> Inl e
                | Inr msg \<Rightarrow> Inl (AssertionError msg))
             else Inr melspec))"

definition PPG_get_mel :: "env \<Rightarrow> PPG_MelLoader \<Rightarrow> string \<Rightarrow> py_error + real tensor2" where
  "PPG_get_mel E self filename =
     get_mel E (load_mel_from_disk self) (max_wav_value self) (stft self) filename"

definition Text_get_mel :: "env \<Rightarrow> TextMelLoader \<Rightarrow> string \<Rightarrow> py_error + real tensor2" where
  "Text_get_mel E self filename =
     get_mel E (tm_load_mel_from_disk self) (tm_max_wav_value self) (tm_stft self) filename"

text \<open>
  \<^verbatim>\<open>get_ppg\<close>, lines 80--90. The locals of the loop are \<^verbatim>\<open>PPG_temp\<close> and
  \<^verbatim>\<open>frame\<close>; each pass binds \<^verbatim>\<open>frame\<close> to a row and then to the array
  \<^verbatim>\<open>np.append\<close> returns. The assertion's message (Chinese in the source) says that
  the data type of the speaker embedding is wrong.
\<close>

record ppg_locals =
  PPG_temp :: "real list list"
  frame :: "real list option"

fun ppg_loop :: "real list list \<Rightarrow> py_value \<Rightarrow> ppg_locals \<Rightarrow> ppg_locals" where
  "ppg_loop [] speaker_embedding s = s"
| "ppg_loop (row # rows) speaker_embedding s =
     ppg_loop rows speaker_embedding
       (s\<lparr>frame := Some (np_append row speaker_embedding)\<rparr>)"

definition get_ppg :: "env \<Rightarrow> string \<Rightarrow> py_value \<Rightarrow> py_error + real list list" where
  "get_ppg E PPG speaker_embedding =
     (if debug E \<and> \<not> py_eq (TypeObj (type_of speaker_embedding)) (StrObj ''np.ndarray'')
      then Inl (AssertionError ''speaker_embedding: wrong data type'')
      else
        (case np_load_ppg E PPG of
           Inl e \<Rightarrow> Inl e
         | Inr loaded \<Rightarrow>
             Inr (PPG_temp (ppg_loop loaded speaker_embedding
                    \<lparr>PPG_temp = loaded, frame = None\<rparr>))))"

text \<open>\<^verbatim>\<open>get_id\<close>, lines 48--59: the speaker encoder on the audio file.\<close>

definition get_id :: "env \<Rightarrow> string \<Rightarrow> py_error + py_value" where
  "get_id E audiopath = speaker_embedding_of E audiopath"

text \<open>\<^verbatim>\<open>xs[i]\<close> on a list, for a non-negative index.\<close>

definition py_index :: "'a list \<Rightarrow> nat \<Rightarrow> py_error + 'a" where
  "py_index xs i = (if i < length xs then Inr (xs ! i) else Inl IndexError)"

definition get_mel_PPG_pair :: "env \<Rightarrow> PPG_MelLoader \<Rightarrow> string list \<Rightarrow>
    py_error + (real list list \<times> real tensor2)" where
  "get_mel_PPG_pair E self audiopath_and_PPG =
     (case py_index audiopath_and_PPG 0 of Inl e \<Rightarrow> Inl e | Inr audiopath \<Rightarrow>
     (case py_index audiopath_and_PPG 1 of Inl e \<Rightarrow> Inl e | Inr PPG \<Rightarrow>
     (case get_id E audiopath of Inl e \<Rightarrow> Inl e | Inr speaker_embedding \<Rightarrow>
     (case get_ppg E PPG speaker_embedding of Inl e \<Rightarrow> Inl e | Inr PPG' \<Rightarrow>
     (case PPG_get_mel E self audiopath of Inl e \<Rightarrow> Inl e | Inr mel \<Rightarrow>
        Inr (PPG', mel))))))"

text \<open>
  Attribute lookup on a \<^verbatim>\<open>PPG_MelLoader\<close>: the instance's fields (set by the
  constructor), then the names the class body defines, then the names of the base class
  \<^verbatim>\<open>torch.utils.data.Dataset\<close>, a parameter.
\<close>

datatype attr = Instance_field string | Class_method string | Inherited string

definition PPG_MelLoader_fields :: "string list" where
  "PPG_MelLoader_fields =
     [''audiopaths_and_PPG'', ''max_wav_value'', ''sampling_rate'', ''load_mel_from_disk'',
      ''stft'']"

definition PPG_MelLoader_methods :: "string list" where
  "PPG_MelLoader_methods =
     [''__init__'', ''get_mel_PPG_pair'', ''get_id'', ''get_mel'', ''get_ppg'',
      ''__getitem__'', ''__len__'']"

definition PPG_getattr :: "string list \<Rightarrow> string \<Rightarrow> py_error + attr" where
  "PPG_getattr dataset_attrs name =
     (if name \<in> set PPG_MelLoader_fields then Inr (Instance_field name)
      else if name \<in> set PPG_MelLoader_methods then Inr (Class_method name)
      else if name \<in> set dataset_attrs then Inr (Inherited name)
      else Inl (AttributeError name))"

text \<open>
  \<^verbatim>\<open>__getitem__\<close>, line 94: the attribute is looked up first, then the argument is
  evaluated, then the call is made. \<open>call_other\<close> stands for the call of an attribute
  other than \<^verbatim>\<open>get_mel_PPG_pair\<close>.
\<close>

definition PPG_MelLoader_getitem ::
    "string list \<Rightarrow> (attr \<Rightarrow> string list \<Rightarrow> py_error + (real list list \<times> real tensor2)) \<Rightarrow>
     env \<Rightarrow> PPG_MelLoader \<Rightarrow> nat \<Rightarrow> py_error + (real list list \<times> real tensor2)" where
  "PPG_MelLoader_getitem dataset_attrs call_other E self index =
     (case PPG_getattr dataset_attrs ''get_mel_PPG_id_pair'' of
        Inl e \<Rightarrow> Inl e
      | Inr f \<Rightarrow>
          (case py_index (audiopaths_and_PPG self) index of
             Inl e \<Rightarrow> Inl e
           | Inr entry \<Rightarrow>
               if f = Class_method ''get_mel_PPG_pair'' then get_mel_PPG_pair E self entry
               else call_other f entry))"

subsection \<open>Concrete inputs\<close>

text \<open>
  A manifest line as in the class's docstring, a waveform sampled at 16000 Hz, a stored
  spectrogram of 40 channels and a stored array of two PPG frames; the configuration
  asks for 22050 Hz and 80 channels.
\<close>

definition demo_mel :: "nat \<Rightarrow> nat \<Rightarrow> real tensor2" where
  "demo_mel c f = \<lparr>size0 = c, size1 = f, at2 = (\<lambda>a j. real (10 * a + j))\<rparr>"

definition demo_env :: "bool \<Rightarrow> env" where
  "demo_env dbg =
     \<lparr>debug = dbg,
      np_load_ppg = (\<lambda>p. if p = ''PPG/PPG_0.npy'' then Inr [[1/2, 1/2], [1/4, 3/4]]
                          else Inl FileNotFoundError),
      np_load_mel = (\<lambda>p. if p = ''mels/meian_0000.npy'' then Inr (demo_mel 40 3)
                          else if p = ''mels/meian_0001.npy'' then Inr (demo_mel 80 3)
                          else Inl FileNotFoundError),
      load_wav_to_torch = (\<lambda>p. if p = ''meian/meian_0000.wav'' then Inr ([0, 16384], 16000)
                                else Inl FileNotFoundError),
      speaker_embedding_of = (\<lambda>p. Inr (NdArray [1, 2, 3])),
      mel_spectrogram = (\<lambda>audio. Inr (demo_mel 80 (length audio)))\<rparr>"

definition demo_stft :: stft_obj where
  "demo_stft = \<lparr>n_mel_channels = 80, stft_sampling_rate = 22050\<rparr>"

definition demo_loader :: "bool \<Rightarrow> PPG_MelLoader" where
  "demo_loader from_disk =
     \<lparr>audiopaths_and_PPG = [[''meian/meian_0000.wav'', ''PPG/PPG_0.npy'']],
      max_wav_value = 32768, sampling_rate = 22050, load_mel_from_disk = from_disk,
      stft = demo_stft\<rparr>"

definition demo_text_loader :: "bool \<Rightarrow> TextMelLoader" where
  "demo_text_loader from_disk =
     \<lparr>audiopaths_and_text = [[''meian/meian_0000.wav'', ''hello'']],
      text_cleaners = [''english_cleaners''],
      tm_max_wav_value = 32768, tm_sampling_rate = 22050, tm_load_mel_from_disk = from_disk,
      tm_stft = demo_stft\<rparr>"

text \<open>Attribute names of the base class \<^verbatim>\<open>torch.utils.data.Dataset\<close>.\<close>

definition demo_dataset_attrs :: "string list" where
  "demo_dataset_attrs = [''__getitem__'', ''__add__'']"

text \<open>
  A manifest of three lines, a generator (its state a number) and two configurations
  with the same seed.
\<close>

definition demo_entries :: "string list list" where
  "demo_entries =
     [[''meian/meian_0000.wav'', ''PPG/PPG_0.npy''],
      [''meian/meian_0001.wav'', ''PPG/PPG_1.npy''],
      [''meian/meian_0002.wav'', ''PPG/PPG_2.npy'']]"

definition demo_load_filepaths :: "string \<Rightarrow> py_error + string list list" where
  "demo_load_filepaths p =
     (if p = ''filelists/train.txt'' then Inr demo_entries else Inl FileNotFoundError)"

definition demo_random_seed :: "int \<Rightarrow> nat" where
  "demo_random_seed s = nat (abs s)"

definition demo_randbelow :: "nat \<Rightarrow> nat \<Rightarrow> nat \<times> nat" where
  "demo_randbelow n g = (if even g then 0 else n - 1, g + 1)"

definition demo_hparams :: "int \<Rightarrow> bool \<Rightarrow> hparams" where
  "demo_hparams sr from_disk =
     \<lparr>hp_max_wav_value = 32768, hp_sampling_rate = sr, hp_load_mel_from_disk = from_disk,
      hp_filter_length = 1024, hp_hop_length = 256, hp_win_length = 1024,
      hp_n_mel_channels = 80, hp_mel_fmin = 0, hp_mel_fmax = 8000,
      hp_text_cleaners = [''english_cleaners''], hp_seed = 1234\<rparr>"

definition demo_TacotronSTFT :: "hparams \<Rightarrow> py_error + stft_obj" where
  "demo_TacotronSTFT hp =
     Inr \<lparr>n_mel_channels = hp_n_mel_channels hp, stft_sampling_rate = hp_sampling_rate hp\<rparr>"

text \<open>
  A batch of three examples with input lengths 3, 7 and 5 and with 4, 6 and 3 frames of
  two channels, and the sort's answer for it. A batch of seventeen examples of input
  length 1 (example \<open>k\<close> holds the symbol \<open>100 + k\<close>), and the answer of
  \<^verbatim>\<open>torch.sort\<close> on the CPU for seventeen equal values: without \<^verbatim>\<open>stable=True\<close> it
  runs the C++ library's \<^verbatim>\<open>std::sort\<close>, which partitions a range of more than sixteen
  elements around a median (it swaps position 0 with the middle, then the positions
  1..16 pairwise from both ends) and leaves shorter ranges of equal values as they are.
\<close>

definition demo_batch :: "example list" where
  "demo_batch =
     [([11, 12, 13], demo_mel 2 4),
      ([21, 22, 23, 24, 25, 26, 27], demo_mel 2 6),
      ([31, 32, 33, 34, 35], demo_mel 2 3)]"

definition demo_sort :: "int list \<Rightarrow> int list \<times> nat list" where
  "demo_sort xs = ([7, 5, 3], [1, 2, 0])"

definition ties17_batch :: "example list" where
  "ties17_batch = map (\<lambda>k. ([100 + int k], demo_mel 1 1)) [0..<17]"

definition ties17_sort :: "int list \<Rightarrow> int list \<times> nat list" where
  "ties17_sort xs =
     (replicate 17 1, [8, 16, 15, 14, 13, 12, 11, 10, 9, 0, 7, 6, 5, 4, 3, 2, 1])"

section \<open>Properties\<close>

subsection \<open>Item access of the PPG loader\<close>

text \<open>
  C1. \<^verbatim>\<open>PPG_MelLoader.__getitem__\<close> looks up \<^verbatim>\<open>get_mel_PPG_id_pair\<close>, a name
  that neither the instance nor the class defines (the class defines
  \<^verbatim>\<open>get_mel_PPG_pair\<close>). Unless the base class has an attribute of that name, item
  access fails with an attribute error at every index, before the manifest is read.
\<close>

theorem getitem_attribute_error:
  assumes "''get_mel_PPG_id_pair'' \<notin> set dataset_attrs"
  shows "PPG_MelLoader_getitem dataset_attrs call_other E self index =
           Inl (AttributeError ''get_mel_PPG_id_pair'') \<and>
         PPG_getattr dataset_attrs ''get_mel_PPG_pair'' = Inr (Class_method ''get_mel_PPG_pair'')"
  using assms
  by (simp add: PPG_MelLoader_getitem_def PPG_getattr_def PPG_MelLoader_fields_def
      PPG_MelLoader_methods_def)

theorem getitem_attribute_error_witness:
  "PPG_MelLoader_getitem demo_dataset_attrs (\<lambda>f entry. Inl RuntimeError) (demo_env True)
     (demo_loader False) 0 = Inl (AttributeError ''get_mel_PPG_id_pair'')"
proof -
  have h: "''get_mel_PPG_id_pair'' \<notin> set demo_dataset_attrs"
    by (simp add: demo_dataset_attrs_def)
  from getitem_attribute_error [OF h] show ?thesis by simp
qed

subsection \<open>Spectrogram acquisition\<close>

lemma py_format_sr_template: "py_format sr_template [a, b] = Inl IndexError"
  by (simp add: sr_template_def)

lemma py_format_mel_template:
  "py_format mel_template [a, b] =
     Inr (''Mel dimension mismatch: given '' @ a @ '', expected '' @ b)"
  by (simp add: mel_template_def)

lemma get_mel_sr_mismatch:
  "load_wav_to_torch E filename = Inr (audio, sr) \<Longrightarrow> sr \<noteq> stft_sampling_rate st \<Longrightarrow>
   get_mel E False mw st filename = Inl IndexError"
  by (simp add: get_mel_def py_format_sr_template)

text \<open>
  C5. On a waveform sampled at 16000 Hz with 22050 Hz configured, \<^verbatim>\<open>get_mel\<close>
  returns no tensor, but the error is the index error of \<^verbatim>\<open>str.format\<close> (three
  fields, two arguments), raised while the value error's message is built.
\<close>

theorem get_mel_sample_rate_mismatch_index_error:
  "PPG_get_mel (demo_env True) (demo_loader False) ''meian/meian_0000.wav'' = Inl IndexError \<and>
   Text_get_mel (demo_env True) (demo_text_loader False) ''meian/meian_0000.wav'' = Inl IndexError"
  by (simp add: PPG_get_mel_def Text_get_mel_def demo_loader_def demo_text_loader_def
      demo_stft_def demo_env_def get_mel_def py_format_sr_template)

text \<open>
  C6 (amended). With assertions enabled and \<^verbatim>\<open>load_mel_from_disk\<close> set, for every array that
  \<^verbatim>\<open>np.load\<close> returns, \<^verbatim>\<open>get_mel\<close> (of either class) returns that array and its
  first dimension is the configured channel count, or it fails with an assertion error;
  an array it returns never has another channel count.
\<close>

theorem get_mel_from_disk_channels:
  assumes "debug E" and "np_load_mel E filename = Inr arr"
    and "load_mel_from_disk self" and "tm_load_mel_from_disk self'"
  shows "((PPG_get_mel E self filename = Inr arr \<and> size0 arr = n_mel_channels (stft self)) \<or>
          (\<exists>msg. PPG_get_mel E self filename = Inl (AssertionError msg))) \<and>
         ((Text_get_mel E self' filename = Inr arr \<and> size0 arr = n_mel_channels (tm_stft self')) \<or>
          (\<exists>msg. Text_get_mel E self' filename = Inl (AssertionError msg))) \<and>
         (\<forall>mel. PPG_get_mel E self filename = Inr mel \<longrightarrow> size0 mel = n_mel_channels (stft self)) \<and>
         (\<forall>mel. Text_get_mel E self' filename = Inr mel \<longrightarrow>
            size0 mel = n_mel_channels (tm_stft self'))"
  using assms
  by (auto simp: PPG_get_mel_def Text_get_mel_def get_mel_def py_format_mel_template)

theorem get_mel_from_disk_channels_witness:
  "(\<exists>msg. PPG_get_mel (demo_env True) (demo_loader True) ''mels/meian_0000.npy'' =
      Inl (AssertionError msg)) \<and>
   (\<exists>msg. Text_get_mel (demo_env True) (demo_text_loader True) ''mels/meian_0000.npy'' =
      Inl (AssertionError msg))"
proof -
  have d: "debug (demo_env True)" by (simp add: demo_env_def)
  have l: "np_load_mel (demo_env True) ''mels/meian_0000.npy'' = Inr (demo_mel 40 3)"
    by (simp add: demo_env_def)
  have a: "load_mel_from_disk (demo_loader True)" by (simp add: demo_loader_def)
  have b: "tm_load_mel_from_disk (demo_text_loader True)" by (simp add: demo_text_loader_def)
  have n: "size0 (demo_mel 40 3) \<noteq> n_mel_channels (stft (demo_loader True))"
    "size0 (demo_mel 40 3) \<noteq> n_mel_channels (tm_stft (demo_text_loader True))"
    by (simp_all add: demo_mel_def demo_loader_def demo_text_loader_def demo_stft_def)
  from get_mel_from_disk_channels [OF d l a b] n show ?thesis by blast
qed

text \<open>
  C6 as stated fails when assert statements are disabled (\<^verbatim>\<open>python -O\<close>): the stored
  array of 40 channels is returned although 80 are configured.
\<close>

theorem get_mel_from_disk_no_assert_counterexample:
  "np_load_mel (demo_env False) ''mels/meian_0000.npy'' = Inr (demo_mel 40 3) \<and>
   load_mel_from_disk (demo_loader True) \<and>
   tm_load_mel_from_disk (demo_text_loader True) \<and>
   PPG_get_mel (demo_env False) (demo_loader True) ''mels/meian_0000.npy'' =
     Inr (demo_mel 40 3) \<and>
   Text_get_mel (demo_env False) (demo_text_loader True) ''mels/meian_0000.npy'' =
     Inr (demo_mel 40 3) \<and>
   size0 (demo_mel 40 3) = 40 \<and>
   n_mel_channels (stft (demo_loader True)) = 80 \<and>
   n_mel_channels (tm_stft (demo_text_loader True)) = 80"
  by (simp add: PPG_get_mel_def Text_get_mel_def get_mel_def demo_env_def demo_loader_def
      demo_text_loader_def demo_stft_def demo_mel_def)

lemma get_mel_from_disk_match:
  "PPG_get_mel (demo_env True) (demo_loader True) ''mels/meian_0001.npy'' = Inr (demo_mel 80 3)"
  by (simp add: PPG_get_mel_def get_mel_def demo_env_def demo_loader_def demo_stft_def
      demo_mel_def)

subsection \<open>Loading the PPG\<close>

lemma ppg_loop_PPG_temp: "PPG_temp (ppg_loop rows emb s) = PPG_temp s"
  by (induction rows arbitrary: s) simp_all

lemma get_ppg_assertion:
  "debug E \<Longrightarrow> get_ppg E PPG emb = Inl (AssertionError ''speaker_embedding: wrong data type'')"
  by (simp add: get_ppg_def)

text \<open>
  C7. With assertions enabled, \<^verbatim>\<open>get_ppg\<close> fails its assertion on a speaker embedding
  that is a numpy array, as \<^verbatim>\<open>get_id\<close> returns it: the assertion compares the type
  object with the string \<^verbatim>\<open>"np.ndarray"\<close>, and the two are never equal.
\<close>

theorem get_ppg_rejects_ndarray:
  "get_ppg (demo_env True) ''PPG/PPG_0.npy'' (NdArray [1, 2, 3]) =
     Inl (AssertionError ''speaker_embedding: wrong data type'')"
  by (simp add: get_ppg_def demo_env_def)

text \<open>
  C8. Whenever \<^verbatim>\<open>get_ppg\<close> returns, what it returns is the array \<^verbatim>\<open>np.load\<close>
  returned for the PPG file, unchanged: the loop assigns the extended frame to its
  loop variable only.
\<close>

theorem get_ppg_returns_loaded:
  assumes "get_ppg E PPG speaker_embedding = Inr result"
  shows "np_load_ppg E PPG = Inr result"
  using assms
  by (auto simp: get_ppg_def ppg_loop_PPG_temp split: if_splits sum.splits)

theorem get_ppg_returns_loaded_witness:
  "get_ppg (demo_env False) ''PPG/PPG_0.npy'' (NdArray [1, 2, 3]) = Inr [[1/2, 1/2], [1/4, 3/4]] \<and>
   np_load_ppg (demo_env False) ''PPG/PPG_0.npy'' = Inr [[1/2, 1/2], [1/4, 3/4]]"
proof -
  have h: "get_ppg (demo_env False) ''PPG/PPG_0.npy'' (NdArray [1, 2, 3]) =
      Inr [[1/2, 1/2], [1/4, 3/4]]"
    by (simp add: get_ppg_def demo_env_def)
  from get_ppg_returns_loaded [OF h] h show ?thesis by simp
qed

subsection \<open>The shuffle of the constructors\<close>

lemma shuffle_from_mset:
  "shuffle_from randbelow i xs g = Inr (ys, g') \<Longrightarrow> mset ys = mset xs"
proof (induction i arbitrary: xs g)
  case 0
  then show ?case by simp
next
  case (Suc i)
  obtain j g1 where rb: "randbelow (Suc i + 1) g = (j, g1)"
    by (cases "randbelow (Suc i + 1) g")
  from Suc.prems rb have ok: "j < length xs" "Suc i < length xs"
    and rec: "shuffle_from randbelow i (xs[Suc i := xs ! j, j := xs ! Suc i]) g1 = Inr (ys, g')"
    by (auto split: if_splits)
  from Suc.IH [OF rec] have "mset ys = mset (xs[Suc i := xs ! j, j := xs ! Suc i])" .
  also have "\<dots> = mset xs" using ok by (simp add: mset_swap)
  finally show ?case .
qed

lemma shuffle_from_total:
  assumes "\<forall>n g. 0 < n \<longrightarrow> fst (randbelow n g) < n"
  shows "i < length xs \<or> i = 0 \<Longrightarrow> \<not> isl (shuffle_from randbelow i xs g)"
proof (induction i arbitrary: xs g)
  case 0
  then show ?case by simp
next
  case (Suc i)
  obtain j g1 where rb: "randbelow (Suc i + 1) g = (j, g1)"
    by (cases "randbelow (Suc i + 1) g")
  have "fst (randbelow (Suc i + 1) g) < Suc i + 1" using assms by simp
  with rb have j: "j < Suc i + 1" by simp
  from Suc.prems have i: "Suc i < length xs" by simp
  have "\<not> isl (shuffle_from randbelow i (xs[Suc i := xs ! j, j := xs ! Suc i]) g1)"
    using i by (intro Suc.IH) simp
  then show ?case using rb j i by simp
qed

lemma random_shuffle_perm:
  assumes "\<forall>n g. 0 < n \<longrightarrow> fst (randbelow n g) < n"
  shows "\<exists>ys g'. random_shuffle randbelow xs g = Inr (ys, g') \<and> mset ys = mset xs"
proof -
  have "length xs - 1 < length xs \<or> length xs - 1 = 0" by arith
  from shuffle_from_total [OF assms this]
  have "\<not> isl (shuffle_from randbelow (length xs - 1) xs g)" .
  then obtain ys g' where r: "shuffle_from randbelow (length xs - 1) xs g = Inr (ys, g')"
    by (cases "shuffle_from randbelow (length xs - 1) xs g") auto
  from shuffle_from_mset [OF r] r show ?thesis by (auto simp: random_shuffle_def)
qed

text \<open>
  C9. For a manifest of \<open>M\<close> entries and any seed (any configuration), and a generator
  whose \<open>randbelow n\<close> draws below \<open>n\<close>, both constructors return a loader; its length is
  \<open>M\<close>, and its entries are the manifest's entries, each as often as in the manifest.
\<close>

theorem loader_length_and_permutation:
  assumes "load_filepaths manifest = Inr entries"
    and "\<forall>n g. 0 < n \<longrightarrow> fst (randbelow n g) < n"
    and "TacotronSTFT hp = Inr stft_o"
  shows "(\<exists>ld g. PPG_MelLoader_init load_filepaths TacotronSTFT random_seed randbelow g0
              manifest hp = Inr (ld, g) \<and>
            PPG_MelLoader_len ld = length entries \<and>
            mset (audiopaths_and_PPG ld) = mset entries) \<and>
         (\<exists>ld g. TextMelLoader_init load_filepaths TacotronSTFT random_seed randbelow g0
              manifest hp = Inr (ld, g) \<and>
            TextMelLoader_len ld = length entries \<and>
            mset (audiopaths_and_text ld) = mset entries)"
proof -
  from random_shuffle_perm [OF assms(2)]
  obtain ys g' where r: "random_shuffle randbelow entries (random_seed (hp_seed hp)) = Inr (ys, g')"
    and m: "mset ys = mset entries" by blast
  from m have l: "length ys = length entries" by (metis size_mset)
  show ?thesis
    using assms(1,3) r m l
    by (simp add: PPG_MelLoader_init_def TextMelLoader_init_def PPG_MelLoader_len_def
        TextMelLoader_len_def)
qed

theorem loader_length_and_permutation_witness:
  "(\<exists>ld g. PPG_MelLoader_init demo_load_filepaths demo_TacotronSTFT demo_random_seed
       demo_randbelow 0 ''filelists/train.txt'' (demo_hparams 22050 False) = Inr (ld, g) \<and>
     PPG_MelLoader_len ld = 3 \<and> mset (audiopaths_and_PPG ld) = mset demo_entries) \<and>
   (\<exists>ld g. TextMelLoader_init demo_load_filepaths demo_TacotronSTFT demo_random_seed
       demo_randbelow 0 ''filelists/train.txt'' (demo_hparams 22050 False) = Inr (ld, g) \<and>
     TextMelLoader_len ld = 3 \<and> mset (audiopaths_and_text ld) = mset demo_entries)"
proof -
  have l: "demo_load_filepaths ''filelists/train.txt'' = Inr demo_entries"
    by (simp add: demo_load_filepaths_def)
  have c: "\<forall>n g. 0 < n \<longrightarrow> fst (demo_randbelow n g) < n"
    by (simp add: demo_randbelow_def)
  have n: "length demo_entries = 3" by (simp add: demo_entries_def)
  from loader_length_and_permutation [where load_filepaths = demo_load_filepaths
      and manifest = "''filelists/train.txt''" and entries = demo_entries
      and randbelow = demo_randbelow and random_seed = demo_random_seed and ?g0.0 = 0
      and hp = "demo_hparams 22050 False" and TacotronSTFT = demo_TacotronSTFT,
      OF l c demo_TacotronSTFT_def]
  show ?thesis unfolding n .
qed


lemma PPG_init_shuffled:
  "PPG_MelLoader_init load_filepaths TacotronSTFT random_seed randbelow g0 manifest hp =
     Inr (ld, g) \<Longrightarrow>
   \<exists>entries. load_filepaths manifest = Inr entries \<and>
     random_shuffle randbelow entries (random_seed (hp_seed hp)) =
       Inr (audiopaths_and_PPG ld, g)"
  by (auto simp: PPG_MelLoader_init_def split: sum.splits prod.splits)

lemma Text_init_shuffled:
  "TextMelLoader_init load_filepaths TacotronSTFT random_seed randbelow g0 manifest hp =
     Inr (ld, g) \<Longrightarrow>
   \<exists>entries. load_filepaths manifest = Inr entries \<and>
     random_shuffle randbelow entries (random_seed (hp_seed hp)) =
       Inr (audiopaths_and_text ld, g)"
  by (auto simp: TextMelLoader_init_def split: sum.splits prod.splits)

text \<open>
  C10. Two loaders constructed from manifests with the same contents under
  configurations with the same seed hold their entries in the same order, whatever the
  state of the process-wide generator before each construction and whatever the other
  options are.
\<close>

theorem shuffle_deterministic:
  assumes "hp_seed hp1 = hp_seed hp2"
    and "load_filepaths1 manifest1 = load_filepaths2 manifest2"
  shows "(PPG_MelLoader_init load_filepaths1 TacotronSTFT1 random_seed randbelow g1
            manifest1 hp1 = Inr (ld1, g1') \<and>
          PPG_MelLoader_init load_filepaths2 TacotronSTFT2 random_seed randbelow g2
            manifest2 hp2 = Inr (ld2, g2')
          \<longrightarrow> audiopaths_and_PPG ld1 = audiopaths_and_PPG ld2) \<and>
         (TextMelLoader_init load_filepaths1 TacotronSTFT1 random_seed randbelow g1
            manifest1 hp1 = Inr (tl1, h1') \<and>
          TextMelLoader_init load_filepaths2 TacotronSTFT2 random_seed randbelow g2
            manifest2 hp2 = Inr (tl2, h2')
          \<longrightarrow> audiopaths_and_text tl1 = audiopaths_and_text tl2)"
proof (intro conjI impI; elim conjE)
  assume a: "PPG_MelLoader_init load_filepaths1 TacotronSTFT1 random_seed randbelow g1
      manifest1 hp1 = Inr (ld1, g1')"
    and b: "PPG_MelLoader_init load_filepaths2 TacotronSTFT2 random_seed randbelow g2
      manifest2 hp2 = Inr (ld2, g2')"
  from PPG_init_shuffled [OF a] obtain e1 where
    l1: "load_filepaths1 manifest1 = Inr e1"
    and s1: "random_shuffle randbelow e1 (random_seed (hp_seed hp1)) =
      Inr (audiopaths_and_PPG ld1, g1')" by blast
  from PPG_init_shuffled [OF b] obtain e2 where
    l2: "load_filepaths2 manifest2 = Inr e2"
    and s2: "random_shuffle randbelow e2 (random_seed (hp_seed hp2)) =
      Inr (audiopaths_and_PPG ld2, g2')" by blast
  from l1 l2 assms(2) have "e1 = e2" by simp
  with s1 s2 assms(1) show "audiopaths_and_PPG ld1 = audiopaths_and_PPG ld2" by simp
next
  assume a: "TextMelLoader_init load_filepaths1 TacotronSTFT1 random_seed randbelow g1
      manifest1 hp1 = Inr (tl1, h1')"
    and b: "TextMelLoader_init load_filepaths2 TacotronSTFT2 random_seed randbelow g2
      manifest2 hp2 = Inr (tl2, h2')"
  from Text_init_shuffled [OF a] obtain e1 where
    l1: "load_filepaths1 manifest1 = Inr e1"
    and s1: "random_shuffle randbelow e1 (random_seed (hp_seed hp1)) =
      Inr (audiopaths_and_text tl1, h1')" by blast
  from Text_init_shuffled [OF b] obtain e2 where
    l2: "load_filepaths2 manifest2 = Inr e2"
    and s2: "random_shuffle randbelow e2 (random_seed (hp_seed hp2)) =
      Inr (audiopaths_and_text tl2, h2')" by blast
  from l1 l2 assms(2) have "e1 = e2" by simp
  with s1 s2 assms(1) show "audiopaths_and_text tl1 = audiopaths_and_text tl2" by simp
qed

lemma demo_shuffle:
  "random_shuffle demo_randbelow demo_entries (demo_random_seed 1234) =
     Inr ([demo_entries ! 2, demo_entries ! 1, demo_entries ! 0], 1236)"
proof -
  have len: "length demo_entries - 1 = Suc (Suc 0)" by (simp add: demo_entries_def)
  show ?thesis
    unfolding random_shuffle_def len
    by (simp add: demo_entries_def demo_randbelow_def demo_random_seed_def)
qed

lemma demo_PPG_init:
  "PPG_MelLoader_init demo_load_filepaths demo_TacotronSTFT demo_random_seed demo_randbelow g
     ''filelists/train.txt'' (demo_hparams sr fd) =
   Inr (\<lparr>audiopaths_and_PPG = [demo_entries ! 2, demo_entries ! 1, demo_entries ! 0],
         max_wav_value = 32768, sampling_rate = sr, load_mel_from_disk = fd,
         stft = \<lparr>n_mel_channels = 80, stft_sampling_rate = sr\<rparr>\<rparr>, 1236)"
  by (simp add: PPG_MelLoader_init_def demo_load_filepaths_def demo_hparams_def
      demo_TacotronSTFT_def demo_shuffle)

lemma demo_Text_init:
  "TextMelLoader_init demo_load_filepaths demo_TacotronSTFT demo_random_seed demo_randbelow g
     ''filelists/train.txt'' (demo_hparams sr fd) =
   Inr (\<lparr>audiopaths_and_text = [demo_entries ! 2, demo_entries ! 1, demo_entries ! 0],
         text_cleaners = [''english_cleaners''],
         tm_max_wav_value = 32768, tm_sampling_rate = sr, tm_load_mel_from_disk = fd,
         tm_stft = \<lparr>n_mel_channels = 80, stft_sampling_rate = sr\<rparr>\<rparr>, 1236)"
  by (simp add: TextMelLoader_init_def demo_load_filepaths_def demo_hparams_def
      demo_TacotronSTFT_def demo_shuffle)

theorem shuffle_deterministic_witness:
  "audiopaths_and_PPG (fst (projr (PPG_MelLoader_init demo_load_filepaths demo_TacotronSTFT
       demo_random_seed demo_randbelow 0 ''filelists/train.txt'' (demo_hparams 22050 False)))) =
   audiopaths_and_PPG (fst (projr (PPG_MelLoader_init demo_load_filepaths demo_TacotronSTFT
       demo_random_seed demo_randbelow 99 ''filelists/train.txt'' (demo_hparams 16000 True)))) \<and>
   audiopaths_and_text (fst (projr (TextMelLoader_init demo_load_filepaths demo_TacotronSTFT
       demo_random_seed demo_randbelow 0 ''filelists/train.txt'' (demo_hparams 22050 False)))) =
   audiopaths_and_text (fst (projr (TextMelLoader_init demo_load_filepaths demo_TacotronSTFT
       demo_random_seed demo_randbelow 99 ''filelists/train.txt'' (demo_hparams 16000 True))))"
proof -
  have s: "hp_seed (demo_hparams 22050 False) = hp_seed (demo_hparams 16000 True)"
    by (simp add: demo_hparams_def)
  have m: "demo_load_filepaths ''filelists/train.txt'' = demo_load_filepaths ''filelists/train.txt''"
    by simp
  note t = shuffle_deterministic [where random_seed = demo_random_seed
      and randbelow = demo_randbelow and ?g1.0 = 0 and ?g2.0 = 99
      and ?load_filepaths1.0 = demo_load_filepaths and ?load_filepaths2.0 = demo_load_filepaths
      and ?manifest1.0 = "''filelists/train.txt''" and ?manifest2.0 = "''filelists/train.txt''"
      and ?TacotronSTFT1.0 = demo_TacotronSTFT and ?TacotronSTFT2.0 = demo_TacotronSTFT,
      OF s m]
  from t [THEN conjunct1, rule_format, OF conjI, OF demo_PPG_init demo_PPG_init]
    t [THEN conjunct2, rule_format, OF conjI, OF demo_Text_init demo_Text_init]
  show ?thesis by (simp add: demo_PPG_init demo_Text_init)
qed

subsection \<open>The loops of the collator\<close>

lemma text_loop_shape:
  "text_loop batch ids i tp = Inr tp' \<Longrightarrow> size0 tp' = size0 tp \<and> size1 tp' = size1 tp"
proof (induction ids arbitrary: i tp)
  case Nil
  then show ?case by simp
next
  case (Cons k ids)
  then show ?case
    by (fastforce simp: Let_def split: if_splits)
qed

lemma text_loop_cells:
  "text_loop batch ids i tp = Inr tp' \<Longrightarrow>
   at2 tp' a j =
     (if i \<le> a \<and> a < i + length ids \<and>
         j < min (length (fst (batch ! (ids ! (a - i))))) (size1 tp)
      then fst (batch ! (ids ! (a - i))) ! j else at2 tp a j)"
proof (induction ids arbitrary: i tp)
  case Nil
  then show ?case by simp
next
  case (Cons k ids)
  let ?tp1 = "tp\<lparr>at2 := (\<lambda>a j.
             if a = i \<and> j < min (length (fst (batch ! k))) (size1 tp) then fst (batch ! k) ! j
             else at2 tp a j)\<rparr>"
  from Cons.prems have rec: "text_loop batch ids (Suc i) ?tp1 = Inr tp'"
    by (simp add: Let_def split: if_splits)
  note ih = Cons.IH [OF rec]
  show ?case
  proof (cases "a = i")
    case True
    then show ?thesis using ih by simp
  next
    case False
    then show ?thesis using ih by (auto simp: nth_Cons')
  qed
qed

lemma text_loop_ok:
  "\<not> isl (text_loop batch ids i tp) \<longleftrightarrow>
   (\<forall>m < length ids. ids ! m < length batch \<and> i + m < size0 tp \<and>
      (length (fst (batch ! (ids ! m))) \<le> size1 tp \<or> length (fst (batch ! (ids ! m))) = 1))"
proof (induction ids arbitrary: i tp)
  case Nil
  then show ?case by simp
next
  case (Cons k ids)
  show ?case
    by (auto simp add: Let_def Cons.IH All_less_Suc2)
qed

lemma mel_loop_shape:
  "mel_loop float32_of batch ids i (mp, gp, ol) = Inr (mp', gp', ol') \<Longrightarrow>
   dim0 mp' = dim0 mp \<and> dim1 mp' = dim1 mp \<and> dim2 mp' = dim2 mp \<and>
   size0 gp' = size0 gp \<and> size1 gp' = size1 gp \<and> length ol' = length ol"
proof (induction ids arbitrary: i mp gp ol)
  case Nil
  then show ?case by simp
next
  case (Cons k ids)
  then show ?case
    by (fastforce simp: Let_def split: if_splits)
qed

lemma mel_loop_ok:
  "\<not> isl (mel_loop float32_of batch ids i (mp, gp, ol)) \<longleftrightarrow>
   (\<forall>m < length ids. ids ! m < length batch \<and> i + m < dim0 mp \<and>
      (size0 (snd (batch ! (ids ! m))) = dim1 mp \<or> size0 (snd (batch ! (ids ! m))) = 1) \<and>
      (size1 (snd (batch ! (ids ! m))) \<le> dim2 mp \<or> size1 (snd (batch ! (ids ! m))) = 1))"
proof (induction ids arbitrary: i mp gp ol)
  case Nil
  then show ?case by simp
next
  case (Cons k ids)
  show ?case
    by (auto simp add: Let_def Cons.IH All_less_Suc2)
qed

lemma mel_loop_cells:
  "mel_loop float32_of batch ids i (mp, gp, ol) = Inr (mp', gp', ol') \<Longrightarrow>
   at3 mp' a c j =
     (if i \<le> a \<and> a < i + length ids \<and> c < dim1 mp \<and>
         j < min (size1 (snd (batch ! (ids ! (a - i))))) (dim2 mp)
      then float32_of (at2 (snd (batch ! (ids ! (a - i))))
             (if size0 (snd (batch ! (ids ! (a - i)))) = dim1 mp then c else 0) j)
      else at3 mp a c j)"
proof (induction ids arbitrary: i mp gp ol)
  case Nil
  then show ?case by simp
next
  case (Cons k ids)
  let ?mel = "snd (batch ! k)"
  let ?mp1 = "mp\<lparr>at3 := (\<lambda>a c j.
             if a = i \<and> c < dim1 mp \<and> j < min (size1 ?mel) (dim2 mp)
             then float32_of (at2 ?mel (if size0 ?mel = dim1 mp then c else 0) j)
             else at3 mp a c j)\<rparr>"
  let ?gp1 = "gp\<lparr>at2 := (\<lambda>a j.
             if a = i \<and> slice_start (int (size1 ?mel) - 1) (size1 gp) \<le> j \<and> j < size1 gp
             then 1 else at2 gp a j)\<rparr>"
  from Cons.prems have rec: "mel_loop float32_of batch ids (Suc i) (?mp1, ?gp1, ol[i := int (size1 ?mel)]) = Inr (mp', gp', ol')"
    by (simp add: Let_def split: if_splits)
  note ih = Cons.IH [OF rec]
  show ?case
  proof (cases "a = i")
    case True
    then show ?thesis using ih by simp
  next
    case False
    then show ?thesis using ih by (auto simp: nth_Cons')
  qed
qed

lemma mel_loop_gate:
  "mel_loop float32_of batch ids i (mp, gp, ol) = Inr (mp', gp', ol') \<Longrightarrow>
   at2 gp' a j =
     (if i \<le> a \<and> a < i + length ids \<and>
         slice_start (int (size1 (snd (batch ! (ids ! (a - i))))) - 1) (size1 gp) \<le> j \<and>
         j < size1 gp
      then 1 else at2 gp a j)"
proof (induction ids arbitrary: i mp gp ol)
  case Nil
  then show ?case by simp
next
  case (Cons k ids)
  let ?mel = "snd (batch ! k)"
  let ?mp1 = "mp\<lparr>at3 := (\<lambda>a c j.
             if a = i \<and> c < dim1 mp \<and> j < min (size1 ?mel) (dim2 mp)
             then float32_of (at2 ?mel (if size0 ?mel = dim1 mp then c else 0) j)
             else at3 mp a c j)\<rparr>"
  let ?gp1 = "gp\<lparr>at2 := (\<lambda>a j.
             if a = i \<and> slice_start (int (size1 ?mel) - 1) (size1 gp) \<le> j \<and> j < size1 gp
             then 1 else at2 gp a j)\<rparr>"
  from Cons.prems have rec: "mel_loop float32_of batch ids (Suc i) (?mp1, ?gp1, ol[i := int (size1 ?mel)]) = Inr (mp', gp', ol')"
    by (simp add: Let_def split: if_splits)
  note ih = Cons.IH [OF rec]
  show ?case
  proof (cases "a = i")
    case True
    then show ?thesis using ih by simp
  next
    case False
    then show ?thesis using ih by (auto simp: nth_Cons')
  qed
qed

lemma mel_loop_lengths:
  "mel_loop float32_of batch ids i (mp, gp, ol) = Inr (mp', gp', ol') \<Longrightarrow>
   ol' ! a =
     (if i \<le> a \<and> a < i + length ids \<and> a < length ol
      then int (size1 (snd (batch ! (ids ! (a - i))))) else ol ! a)"
proof (induction ids arbitrary: i mp gp ol)
  case Nil
  then show ?case by simp
next
  case (Cons k ids)
  let ?mel = "snd (batch ! k)"
  let ?mp1 = "mp\<lparr>at3 := (\<lambda>a c j.
             if a = i \<and> c < dim1 mp \<and> j < min (size1 ?mel) (dim2 mp)
             then float32_of (at2 ?mel (if size0 ?mel = dim1 mp then c else 0) j)
             else at3 mp a c j)\<rparr>"
  let ?gp1 = "gp\<lparr>at2 := (\<lambda>a j.
             if a = i \<and> slice_start (int (size1 ?mel) - 1) (size1 gp) \<le> j \<and> j < size1 gp
             then 1 else at2 gp a j)\<rparr>"
  from Cons.prems have rec: "mel_loop float32_of batch ids (Suc i) (?mp1, ?gp1, ol[i := int (size1 ?mel)]) = Inr (mp', gp', ol')"
    by (simp add: Let_def split: if_splits)
  note ih = Cons.IH [OF rec]
  show ?case
  proof (cases "a = i")
    case True
    then show ?thesis using ih by (simp add: list_update_beyond)
  next
    case False
    then show ?thesis using ih by (auto simp: nth_Cons')
  qed
qed

subsection \<open>The collator\<close>

lemma collate_Inr_D:
  assumes "collate S float32_of u n batch = Inr r"
  shows "\<exists>vals ids tp m T mp gp ol.
     S (map (\<lambda>x. int (length (fst x))) batch) = (vals, ids) \<and> vals \<noteq> [] \<and> 0 \<le> hd vals \<and>
     text_loop batch ids 0 (zeros2 (length batch) (nat (hd vals))) = Inr tp \<and>
     batch \<noteq> [] \<and>
     py_max (map (\<lambda>x. int (size1 (snd x))) batch) = Inr m \<and>
     round_target_len n m = Inr T \<and> 0 \<le> T \<and>
     mel_loop float32_of batch ids 0
       (zeros3 (length batch) (size0 (snd (hd batch))) (nat T),
        zeros2 (length batch) (nat T), map u [0..<length batch]) = Inr (mp, gp, ol) \<and>
     r = \<lparr>text_padded = tp, input_lengths = vals, mel_padded = mp, gate_padded = gp,
          output_lengths = ol\<rparr>"
  using assms unfolding collate_def
  by (auto split: prod.splits list.splits sum.splits if_splits)

lemma sort_desc_ok_ids:
  assumes "sort_desc_ok xs (vals, ids)"
  shows "mset ids = mset [0..<length xs]" and "length ids = length xs"
    and "\<And>m. m < length ids \<Longrightarrow> ids ! m < length xs"
proof -
  from assms have s: "sort ids = [0..<length xs]" by (simp add: sort_desc_ok_def)
  have "mset (sort ids) = mset ids" by simp
  with s show m: "mset ids = mset [0..<length xs]" by simp
  from m show l: "length ids = length xs" by (metis size_mset length_upt diff_zero)
  from m have "set ids = {0..<length xs}" by (metis set_mset_mset set_upt)
  then show "\<And>m. m < length ids \<Longrightarrow> ids ! m < length xs"
    by (metis atLeastLessThan_iff nth_mem)
qed

lemma sort_desc_ok_vals:
  assumes "sort_desc_ok xs (vals, ids)"
  shows "mset vals = mset xs" and "sorted (rev vals)" and "vals = map (\<lambda>k. xs ! k) ids"
proof -
  from assms show v: "vals = map (\<lambda>k. xs ! k) ids"
    by (simp add: sort_desc_ok_def)
  from assms show "sorted (rev vals)"
    unfolding sort_desc_ok_def by (elim conjE) simp
  have "mset vals = image_mset (\<lambda>k. xs ! k) (mset ids)" using v by simp
  also have "\<dots> = image_mset (\<lambda>k. xs ! k) (mset [0..<length xs])"
    using sort_desc_ok_ids(1)[OF assms] by simp
  also have "\<dots> = mset (map (\<lambda>k. xs ! k) [0..<length xs])" by simp
  also have "\<dots> = mset xs" by (simp add: map_nth)
  finally show "mset vals = mset xs" .
qed

lemma sort_desc_ok_hd:
  assumes "sort_desc_ok xs (vals, ids)" and "xs \<noteq> []"
  shows "vals \<noteq> []" and "hd vals = Max (set xs)"
proof -
  have m: "mset vals = mset xs" by (rule sort_desc_ok_vals(1)[OF assms(1)])
  then have se: "set vals = set xs" by (metis set_mset_mset)
  with assms(2) show ne: "vals \<noteq> []" by auto
  have srt: "sorted (rev vals)" by (rule sort_desc_ok_vals(2)[OF assms(1)])
  have "\<forall>v \<in> set vals. v \<le> hd vals"
    using srt ne by (cases vals) (auto simp: sorted_append)
  moreover have "hd vals \<in> set vals" using ne by simp
  ultimately show "hd vals = Max (set xs)"
    using se by (metis List.finite_set Max_eqI)
qed

lemma py_max_Max: "xs \<noteq> [] \<Longrightarrow> py_max xs = Inr (Max (set xs))"
proof (cases xs)
  case Nil
  assume "xs \<noteq> []" with Nil show ?thesis by simp
next
  case (Cons a list)
  then show ?thesis using Max.set_eq_fold [of a list] by simp
qed

text \<open>
  The assertion of line 185 holds whenever it is reached, so it makes no difference
  whether assertions are enabled.
\<close>

lemma round_target_len_no_assertion_error:
  "round_target_len n m \<noteq> Inl (AssertionError msg)"
proof -
  have "(m + (n - m mod n)) mod n = 0"
    by (metis add_diff_eq mod_add_self2 minus_mod_eq_mult_div mod_mult_self1_is_0)
  then show ?thesis by (simp add: round_target_len_def Let_def)
qed

lemma round_target_len_pos:
  assumes "0 < n" and "0 \<le> m"
  shows "\<exists>T. round_target_len n m = Inr T \<and> n dvd T \<and> m \<le> T \<and> T < m + n"
proof (cases "m mod n = 0")
  case True
  then show ?thesis using assms by (auto simp: round_target_len_def)
next
  case False
  have z: "(m + (n - m mod n)) mod n = 0"
    by (metis add_diff_eq mod_add_self2 minus_mod_eq_mult_div mod_mult_self1_is_0)
  have b: "m mod n < n" "0 \<le> m mod n" using assms by simp_all
  have "round_target_len n m = Inr (m + (n - m mod n))"
    using False assms z by (simp add: round_target_len_def Let_def)
  moreover have "n dvd m + (n - m mod n)" using z by (simp add: dvd_eq_mod_eq_0)
  moreover have "m \<le> m + (n - m mod n)" "m + (n - m mod n) < m + n" using b False by linarith+
  ultimately show ?thesis by blast
qed

text \<open>
  C2. In a batch the collator returns, the row of stop flags of an example with
  \<open>L \<ge> 1\<close> target frames is \<open>0\<close> at the indices below \<open>L - 1\<close> and \<open>1\<close> from \<open>L - 1\<close> to
  the end of the row.
\<close>

theorem stop_flags:
  assumes "collate torch_sort float32_of uninit n batch = Inr r"
    and "sort_desc_ok (map (\<lambda>x. int (length (fst x))) batch)
           (torch_sort (map (\<lambda>x. int (length (fst x))) batch))"
    and "i < length batch"
    and "L = size1 (snd (example_of_row torch_sort batch i))"
    and "1 \<le> L"
    and "j < size1 (gate_padded r)"
  shows "at2 (gate_padded r) i j = (if j + 1 < L then 0 else 1)"
proof -
  from collate_Inr_D [OF assms(1)] obtain vals ids tp m T mp gp ol where
    S: "torch_sort (map (\<lambda>x. int (length (fst x))) batch) = (vals, ids)"
    and ml: "mel_loop float32_of batch ids 0
       (zeros3 (length batch) (size0 (snd (hd batch))) (nat T),
        zeros2 (length batch) (nat T), map uninit [0..<length batch]) = Inr (mp, gp, ol)"
    and r: "r = \<lparr>text_padded = tp, input_lengths = vals, mel_padded = mp, gate_padded = gp,
          output_lengths = ol\<rparr>"
    by blast
  from assms(2) S have ok: "sort_desc_ok (map (\<lambda>x. int (length (fst x))) batch) (vals, ids)"
    by simp
  have len: "length ids = length batch" using sort_desc_ok_ids(2) [OF ok] by simp
  have sz: "size1 gp = nat T" using mel_loop_shape [OF ml] by (simp add: zeros2_def)
  have L: "L = size1 (snd (batch ! (ids ! i)))" using assms(4) S by (simp add: example_of_row_def)
  have j: "j < nat T" using assms(6) r sz by simp
  have "at2 gp i j =
     (if slice_start (int L - 1) (nat T) \<le> j then 1 else 0)"
    using mel_loop_gate [OF ml, of i j] assms(3) len j L by (simp add: zeros2_def)
  moreover have "slice_start (int L - 1) (nat T) = min (L - 1) (nat T)"
    using assms(5) by (simp add: slice_start_def nat_diff_distrib')
  ultimately show ?thesis using r j assms(5) by auto
qed

lemma Max_int_map:
  assumes "xs \<noteq> []"
  shows "Max (set (map (\<lambda>x. int (f x)) xs)) = int (Max (set (map f xs)))"
proof -
  have "int (Max (f ` set xs)) = Max (int ` (f ` set xs))"
    using assms by (intro mono_Max_commute) (auto simp: mono_def)
  then show ?thesis by (simp add: image_image)
qed

lemma multiple_gap:
  fixes n a b :: int
  assumes "0 < n" "n dvd a" "n dvd b" "b < a"
  shows "b + n \<le> a"
proof -
  have "n dvd a - b" using assms by (simp add: dvd_diff)
  moreover have "0 < a - b" using assms by simp
  ultimately have "n \<le> a - b" by (rule zdvd_imp_le)
  then show ?thesis by simp
qed

lemma collate_total:
  assumes "batch \<noteq> []" and "0 < n"
    and "\<forall>x \<in> set batch. size0 (snd x) = size0 (snd (hd batch))"
    and "sort_desc_ok (map (\<lambda>x. int (length (fst x))) batch)
           (torch_sort (map (\<lambda>x. int (length (fst x))) batch))"
  shows "\<exists>r. collate torch_sort float32_of uninit n batch = Inr r \<and>
     size0 (text_padded r) = length batch \<and>
     size1 (text_padded r) = Max (set (map (\<lambda>x. length (fst x)) batch)) \<and>
     dim0 (mel_padded r) = length batch \<and>
     dim1 (mel_padded r) = size0 (snd (hd batch)) \<and>
     n dvd int (dim2 (mel_padded r)) \<and>
     Max (set (map (\<lambda>x. size1 (snd x)) batch)) \<le> dim2 (mel_padded r) \<and>
     (\<forall>m. n dvd int m \<and> Max (set (map (\<lambda>x. size1 (snd x)) batch)) \<le> m
        \<longrightarrow> dim2 (mel_padded r) \<le> m)"
proof -
  let ?lens = "map (\<lambda>x. int (length (fst x))) batch"
  let ?W = "Max (set (map (\<lambda>x. length (fst x)) batch))"
  let ?F = "Max (set (map (\<lambda>x. size1 (snd x)) batch))"
  let ?C = "size0 (snd (hd batch))"
  let ?N = "length batch"
  obtain vals ids where S: "torch_sort ?lens = (vals, ids)" by (cases "torch_sort ?lens")
  with assms(4) have ok: "sort_desc_ok ?lens (vals, ids)" by simp
  have lne: "?lens \<noteq> []" using assms(1) by simp
  have vne: "vals \<noteq> []" and hd: "hd vals = int ?W"
    using sort_desc_ok_hd [OF ok lne] Max_int_map [OF assms(1), of "\<lambda>x. length (fst x)"]
    by simp_all
  have len: "length ids = ?N" and rng: "\<And>m. m < length ids \<Longrightarrow> ids ! m < ?N"
    using sort_desc_ok_ids(2,3) [OF ok] by simp_all
  have inW: "\<And>k. k < ?N \<Longrightarrow> length (fst (batch ! k)) \<le> ?W"
    by (intro Max_ge) auto
  have inF: "\<And>k. k < ?N \<Longrightarrow> size1 (snd (batch ! k)) \<le> ?F"
    by (intro Max_ge) auto
  \<comment> \<open>the first loop\<close>
  have "\<not> isl (text_loop batch ids 0 (zeros2 ?N ?W))"
    unfolding text_loop_ok using len rng inW by (simp add: zeros2_def)
  then obtain tp where tl: "text_loop batch ids 0 (zeros2 ?N ?W) = Inr tp"
    by (cases "text_loop batch ids 0 (zeros2 ?N ?W)") auto
  have tps: "size0 tp = ?N" "size1 tp = ?W"
    using text_loop_shape [OF tl] by (simp_all add: zeros2_def)
  \<comment> \<open>the padded target length\<close>
  have pm: "py_max (map (\<lambda>x. int (size1 (snd x))) batch) = Inr (int ?F)"
    using py_max_Max [of "map (\<lambda>x. int (size1 (snd x))) batch"] assms(1)
      Max_int_map [OF assms(1), of "\<lambda>x. size1 (snd x)"] by simp
  from round_target_len_pos [OF assms(2), of "int ?F"] obtain T where
    rt: "round_target_len n (int ?F) = Inr T" and dv: "n dvd T" and ge: "int ?F \<le> T"
    and lt: "T < int ?F + n" by auto
  have T0: "0 \<le> T" using ge by simp
  \<comment> \<open>the second loop\<close>
  have ch: "\<And>k. k < ?N \<Longrightarrow> size0 (snd (batch ! k)) = ?C"
    using assms(3) by simp
  have fr: "\<And>k. k < ?N \<Longrightarrow> size1 (snd (batch ! k)) \<le> nat T"
    using inF ge by (meson le_nat_iff T0 order_trans of_nat_le_iff nat_int_comparison(3))
  have "\<not> isl (mel_loop float32_of batch ids 0 (zeros3 ?N ?C (nat T), zeros2 ?N (nat T), map uninit [0..<?N]))"
    unfolding zeros3_def mel_loop_ok using len rng ch fr by simp
  then obtain mp gp ol where ml: "mel_loop float32_of batch ids 0
      (zeros3 ?N ?C (nat T), zeros2 ?N (nat T), map uninit [0..<?N]) = Inr (mp, gp, ol)"
    by (cases "mel_loop float32_of batch ids 0 (zeros3 ?N ?C (nat T), zeros2 ?N (nat T), map uninit [0..<?N])")
      auto
  have mps: "dim0 mp = ?N" "dim1 mp = ?C" "dim2 mp = nat T"
    using mel_loop_shape [OF ml] by (simp_all add: zeros3_def)
  \<comment> \<open>the result\<close>
  let ?r = "\<lparr>text_padded = tp, input_lengths = vals, mel_padded = mp, gate_padded = gp,
          output_lengths = ol\<rparr>"
  obtain v vs where vals: "vals = v # vs" using vne by (cases vals) auto
  with hd have v: "v = int ?W" by simp
  have "collate torch_sort float32_of uninit n batch = Inr ?r"
    using S vals v tl pm rt T0 ml assms(1)
    by (cases batch) (simp_all add: collate_def)
  moreover have "n dvd int (dim2 mp)" using dv T0 mps by simp
  moreover have "?F \<le> dim2 mp" using ge mps T0 by linarith
  moreover have "\<forall>m. n dvd int m \<and> ?F \<le> m \<longrightarrow> dim2 mp \<le> m"
  proof (intro allI impI)
    fix m assume a: "n dvd int m \<and> ?F \<le> m"
    show "dim2 mp \<le> m"
    proof (rule ccontr)
      assume "\<not> dim2 mp \<le> m"
      then have "int m < T" using mps T0 by linarith
      from multiple_gap [OF assms(2) dv _ this] a have "int m + n \<le> T" by simp
      with lt a show False by linarith
    qed
  qed
  ultimately show ?thesis using tps mps by (intro exI [of _ ?r]) simp
qed

text \<open>
  C3. For a non-empty batch whose spectrograms have the same channel count and a
  positive frames-per-step factor, the collator returns; the padded inputs have shape
  (\<open>N\<close>, longest input), and the last dimension of the padded targets is the smallest
  multiple of the factor that is at least the longest target.
\<close>

theorem collate_shapes:
  assumes "batch \<noteq> []" and "0 < n"
    and "\<forall>x \<in> set batch. size0 (snd x) = size0 (snd (hd batch))"
    and "sort_desc_ok (map (\<lambda>x. int (length (fst x))) batch)
           (torch_sort (map (\<lambda>x. int (length (fst x))) batch))"
  shows "\<exists>r. collate torch_sort float32_of uninit n batch = Inr r \<and>
     size0 (text_padded r) = length batch \<and>
     size1 (text_padded r) = Max (set (map (\<lambda>x. length (fst x)) batch)) \<and>
     dim0 (mel_padded r) = length batch \<and>
     dim1 (mel_padded r) = size0 (snd (hd batch)) \<and>
     n dvd int (dim2 (mel_padded r)) \<and>
     Max (set (map (\<lambda>x. size1 (snd x)) batch)) \<le> dim2 (mel_padded r) \<and>
     (\<forall>m. n dvd int m \<and> Max (set (map (\<lambda>x. size1 (snd x)) batch)) \<le> m
        \<longrightarrow> dim2 (mel_padded r) \<le> m)"
  using assms by (rule collate_total)

lemma mset_rows:
  assumes "mset ids = mset [0..<length batch]"
  shows "mset (map (\<lambda>i. batch ! (ids ! i)) [0..<length ids]) = mset batch"
proof -
  have "map (\<lambda>i. batch ! (ids ! i)) [0..<length ids] = map (\<lambda>k. batch ! k) ids"
    by (rule nth_equalityI) simp_all
  then have "mset (map (\<lambda>i. batch ! (ids ! i)) [0..<length ids]) =
      image_mset (\<lambda>k. batch ! k) (mset ids)" by simp
  also have "\<dots> = image_mset (\<lambda>k. batch ! k) (mset [0..<length batch])" using assms by simp
  also have "\<dots> = mset (map (\<lambda>k. batch ! k) [0..<length batch])" by simp
  also have "\<dots> = mset batch" by (simp add: map_nth)
  finally show ?thesis .
qed

lemma sorted_rev_le_hd: "sorted (rev xs) \<Longrightarrow> i < length xs \<Longrightarrow> xs ! i \<le> hd xs"
  by (cases xs) (auto simp: sorted_append nth_Cons')

lemma collate_rows:
  assumes "collate torch_sort float32_of uninit n batch = Inr r"
    and "sort_desc_ok (map (\<lambda>x. int (length (fst x))) batch)
           (torch_sort (map (\<lambda>x. int (length (fst x))) batch))"
  shows "mset (map (example_of_row torch_sort batch) [0..<length batch]) = mset batch \<and>
         sorted (rev (input_lengths r)) \<and>
         (\<forall>i < length batch.
            row_is_example float32_of r i (example_of_row torch_sort batch i) \<and>
            length (fst (example_of_row torch_sort batch i)) \<le> size1 (text_padded r))"
proof -
  let ?lens = "map (\<lambda>x. int (length (fst x))) batch"
  let ?N = "length batch"
  from collate_Inr_D [OF assms(1)] obtain vals ids tp m T mp gp ol where
    S: "torch_sort ?lens = (vals, ids)" and vne: "vals \<noteq> []" and h0: "0 \<le> hd vals"
    and tl: "text_loop batch ids 0 (zeros2 ?N (nat (hd vals))) = Inr tp"
    and T0: "0 \<le> T"
    and ml: "mel_loop float32_of batch ids 0
       (zeros3 ?N (size0 (snd (hd batch))) (nat T),
        zeros2 ?N (nat T), map uninit [0..<?N]) = Inr (mp, gp, ol)"
    and r: "r = \<lparr>text_padded = tp, input_lengths = vals, mel_padded = mp, gate_padded = gp,
          output_lengths = ol\<rparr>"
    by blast
  from assms(2) S have ok: "sort_desc_ok ?lens (vals, ids)" by simp
  have ms: "mset ids = mset [0..<?N]" and len: "length ids = ?N"
    and rng: "\<And>m. m < length ids \<Longrightarrow> ids ! m < ?N"
    using sort_desc_ok_ids [OF ok] by simp_all
  have vals: "vals = map (\<lambda>k. ?lens ! k) ids" and srt: "sorted (rev vals)"
    using sort_desc_ok_vals(2,3) [OF ok] by simp_all
  have ex: "\<And>i. example_of_row torch_sort batch i = batch ! (ids ! i)"
    using S by (simp add: example_of_row_def)
  have tps: "size0 tp = ?N" "size1 tp = nat (hd vals)"
    using text_loop_shape [OF tl] by (simp_all add: zeros2_def)
  have mps: "dim0 mp = ?N" "dim1 mp = size0 (snd (hd batch))" "dim2 mp = nat T"
    "size0 gp = ?N" "size1 gp = nat T" "length ol = ?N"
    using mel_loop_shape [OF ml] by (simp_all add: zeros3_def zeros2_def)
  have p1: "mset (map (example_of_row torch_sort batch) [0..<?N]) = mset batch"
    using mset_rows [OF ms] len by (simp add: ex cong: map_cong)
  have p3: "row_is_example float32_of r i (example_of_row torch_sort batch i) \<and>
      length (fst (example_of_row torch_sort batch i)) \<le> size1 (text_padded r)"
    if i: "i < ?N" for i
  proof -
    let ?e = "batch ! (ids ! i)"
    have k: "ids ! i < ?N" using rng i len by simp
    have a: "input_lengths r ! i = int (length (fst ?e))"
      using r vals i len k by simp
    have mx: "length (fst ?e) \<le> nat (hd vals)"
    proof -
      have "vals ! i \<le> hd vals"
        using srt i len vals by (intro sorted_rev_le_hd) simp_all
      moreover have "vals ! i = int (length (fst ?e))" using vals i len k by simp
      ultimately show ?thesis by simp
    qed
    have b: "\<forall>j \<in> {0..<size1 (text_padded r)}.
         at2 (text_padded r) i j = (if j < length (fst ?e) then fst ?e ! j else 0)"
      using text_loop_cells [OF tl, of i] i len mx r tps by (auto simp: zeros2_def)
    have c: "output_lengths r ! i = int (size1 (snd ?e))"
      using mel_loop_lengths [OF ml, of i] i len r by simp
    have fit: "size1 (snd ?e) \<le> nat T \<or> size1 (snd ?e) = 1"
    proof -
      have "\<not> isl (mel_loop float32_of batch ids 0 (zeros3 ?N (size0 (snd (hd batch))) (nat T),
          zeros2 ?N (nat T), map uninit [0..<?N]))" using ml by simp
      then show ?thesis unfolding zeros3_def mel_loop_ok using i len by simp
    qed
    have d: "\<forall>c \<in> {0..<dim1 (mel_padded r)}. \<forall>j \<in> {0..<dim2 (mel_padded r)}.
         at3 (mel_padded r) i c j =
           (if j < size1 (snd ?e)
            then float32_of
              (at2 (snd ?e) (if size0 (snd ?e) = dim1 (mel_padded r) then c else 0) j)
            else 0)"
      using mel_loop_cells [OF ml, of i] i len r mps by (auto simp: zeros3_def)
    have e: "\<forall>j \<in> {0..<size1 (gate_padded r)}.
         at2 (gate_padded r) i j =
           (if slice_start (int (size1 (snd ?e)) - 1) (size1 (gate_padded r)) \<le> j
            then 1 else 0)"
      using mel_loop_gate [OF ml, of i] i len r mps by (auto simp: zeros2_def)
    have w: "length (fst ?e) \<le> size1 (text_padded r)" using mx r tps by simp
    show ?thesis unfolding row_is_example_def ex using a b c d e w by blast
  qed
  show ?thesis using p1 p3 srt r by simp
qed

text \<open>
  C4 (amended). In a batch the collator returns, the rows are the examples of the batch,
  each exactly once, in the order of the indices \<^verbatim>\<open>torch.sort\<close> returned; the input
  lengths are in descending order; and row \<open>i\<close> of all five arrays is built from the same
  example.
\<close>

theorem collate_rows_consistent:
  assumes "collate torch_sort float32_of uninit n batch = Inr r"
    and "sort_desc_ok (map (\<lambda>x. int (length (fst x))) batch)
           (torch_sort (map (\<lambda>x. int (length (fst x))) batch))"
  shows "mset (map (example_of_row torch_sort batch) [0..<length batch]) = mset batch \<and>
         sorted (rev (input_lengths r)) \<and>
         (\<forall>i < length batch.
            row_is_example float32_of r i (example_of_row torch_sort batch i))"
  using collate_rows [OF assms] by blast

text \<open>
  A row holds the input of one example only: where the sort's indices name an example
  whose input differs from that of \<open>ex\<close>, the row is not built from \<open>ex\<close>.
\<close>

lemma row_of_other_example:
  assumes "collate torch_sort float32_of uninit n batch = Inr r"
    and "sort_desc_ok (map (\<lambda>x. int (length (fst x))) batch)
           (torch_sort (map (\<lambda>x. int (length (fst x))) batch))"
    and "i < length batch"
    and "fst (example_of_row torch_sort batch i) \<noteq> fst ex"
  shows "\<not> row_is_example float32_of r i ex"
proof
  assume other: "row_is_example float32_of r i ex"
  let ?e = "example_of_row torch_sort batch i"
  from collate_rows [OF assms(1,2)] assms(3)
  have own: "row_is_example float32_of r i ?e"
    and w: "length (fst ?e) \<le> size1 (text_padded r)" by simp_all
  have len: "length (fst ?e) = length (fst ex)"
    using own other by (simp add: row_is_example_def)
  have "fst ?e ! j = fst ex ! j" if j: "j < length (fst ?e)" for j
  proof -
    have jw: "j \<in> {0..<size1 (text_padded r)}" using j w by simp
    have "at2 (text_padded r) i j = fst ?e ! j"
      using own jw j unfolding row_is_example_def by auto
    moreover have "at2 (text_padded r) i j = fst ex ! j"
      using other jw j len unfolding row_is_example_def by auto
    ultimately show ?thesis by simp
  qed
  with len have "fst ?e = fst ex" by (intro nth_equalityI) simp_all
  with assms(4) show False by simp
qed

subsection \<open>The collator on the concrete batches\<close>

lemma upt_3: "[0..<3] = [0, 1, 2]"
  by (simp add: upt_rec)

lemma upt_2: "[0..<2] = [0, 1]"
  by (simp add: upt_rec)

lemma demo_lens: "map (\<lambda>x. int (length (fst x))) demo_batch = [3, 7, 5]"
  by (simp add: demo_batch_def)

lemma demo_sort_ok:
  "sort_desc_ok (map (\<lambda>x. int (length (fst x))) demo_batch)
     (demo_sort (map (\<lambda>x. int (length (fst x))) demo_batch))"
  by (simp add: demo_lens sort_desc_ok_def demo_sort_def upt_3)

lemma demo_collate:
  "collate demo_sort (\<lambda>x. x) (\<lambda>i. - 1) 4 demo_batch =
     Inr (projr (collate demo_sort (\<lambda>x. x) (\<lambda>i. - 1) 4 demo_batch))"
proof -
  have "\<not> isl (collate demo_sort (\<lambda>x. x) (\<lambda>i. - 1) 4 demo_batch)"
    by (simp add: collate_def demo_sort_def demo_batch_def demo_mel_def zeros2_def zeros3_def
      round_target_len_def Let_def upt_3)
  then show ?thesis by simp
qed

lemma demo_rows:
  "example_of_row demo_sort demo_batch 0 = demo_batch ! 1"
  "example_of_row demo_sort demo_batch 1 = demo_batch ! 2"
  "example_of_row demo_sort demo_batch 2 = demo_batch ! 0"
  by (simp_all add: example_of_row_def demo_sort_def)

theorem stop_flags_witness:
  "at2 (gate_padded (projr (collate demo_sort (\<lambda>x. x) (\<lambda>i. - 1) 4 demo_batch))) 0 4 = 0 \<and>
   at2 (gate_padded (projr (collate demo_sort (\<lambda>x. x) (\<lambda>i. - 1) 4 demo_batch))) 0 5 = 1 \<and>
   at2 (gate_padded (projr (collate demo_sort (\<lambda>x. x) (\<lambda>i. - 1) 4 demo_batch))) 0 7 = 1"
proof -
  let ?r = "projr (collate demo_sort (\<lambda>x. x) (\<lambda>i. - 1) 4 demo_batch)"
  have T: "size1 (gate_padded ?r) = 8"
    by (simp add: collate_def demo_sort_def demo_batch_def demo_mel_def zeros2_def zeros3_def
      round_target_len_def Let_def upt_3)
  have L: "6 = size1 (snd (example_of_row demo_sort demo_batch 0))"
    unfolding demo_rows by (simp add: demo_batch_def demo_mel_def)
  have n: "(0::nat) < length demo_batch" by (simp add: demo_batch_def)
  note t = stop_flags [OF demo_collate demo_sort_ok n L]
  from t [of 4] t [of 5] t [of 7] T show ?thesis by simp
qed


theorem collate_shapes_witness:
  "\<exists>r. collate demo_sort (\<lambda>x. x) (\<lambda>i. - 1) 4 demo_batch = Inr r \<and>
     size0 (text_padded r) = 3 \<and> size1 (text_padded r) = 7 \<and> dim2 (mel_padded r) = 8"
proof -
  have ne: "demo_batch \<noteq> []" by (simp add: demo_batch_def)
  have n: "(0::int) < 4" by simp
  have ch: "\<forall>x \<in> set demo_batch. size0 (snd x) = size0 (snd (hd demo_batch))"
    by (simp add: demo_batch_def demo_mel_def)
  have W: "Max (set (map (\<lambda>x. length (fst x)) demo_batch)) = 7"
    by (simp add: demo_batch_def)
  have F: "Max (set (map (\<lambda>x. size1 (snd x)) demo_batch)) = 6"
    by (simp add: demo_batch_def demo_mel_def)
  have N: "length demo_batch = 3" by (simp add: demo_batch_def)
  from collate_shapes [where batch = demo_batch and n = 4 and torch_sort = demo_sort
      and uninit = "\<lambda>i. - 1" and float32_of = "\<lambda>x. x", OF ne n ch demo_sort_ok]
  obtain r where
    c: "collate demo_sort (\<lambda>x. x) (\<lambda>i. - 1) 4 demo_batch = Inr r"
    and s: "size0 (text_padded r) = 3" "size1 (text_padded r) = 7"
    and d: "4 dvd int (dim2 (mel_padded r))" "6 \<le> dim2 (mel_padded r)"
    and m: "\<forall>m. 4 dvd int m \<and> 6 \<le> m \<longrightarrow> dim2 (mel_padded r) \<le> m"
    unfolding W F N by blast
  from m [rule_format, of 8] have "dim2 (mel_padded r) \<le> 8" by simp
  with d have "dim2 (mel_padded r) = 8" by presburger
  with c s show ?thesis by blast
qed

theorem collate_rows_consistent_witness:
  "row_is_example (\<lambda>x. x) (projr (collate demo_sort (\<lambda>x. x) (\<lambda>i. - 1) 4 demo_batch)) 0 (demo_batch ! 1) \<and>
   row_is_example (\<lambda>x. x) (projr (collate demo_sort (\<lambda>x. x) (\<lambda>i. - 1) 4 demo_batch)) 1 (demo_batch ! 2) \<and>
   row_is_example (\<lambda>x. x) (projr (collate demo_sort (\<lambda>x. x) (\<lambda>i. - 1) 4 demo_batch)) 2 (demo_batch ! 0) \<and>
   sorted (rev (input_lengths (projr (collate demo_sort (\<lambda>x. x) (\<lambda>i. - 1) 4 demo_batch))))"
proof -
  have N: "length demo_batch = 3" by (simp add: demo_batch_def)
  note t = collate_rows_consistent [OF demo_collate demo_sort_ok]
  from t have r: "\<And>i. i < 3 \<Longrightarrow>
      row_is_example (\<lambda>x. x) (projr (collate demo_sort (\<lambda>x. x) (\<lambda>i. - 1) 4 demo_batch)) i
        (example_of_row demo_sort demo_batch i)"
    unfolding N by blast
  from r [of 0] r [of 1] r [of 2] t show ?thesis unfolding demo_rows by simp
qed

lemma ties17_nth:
  "k < 17 \<Longrightarrow> ties17_batch ! k = ([100 + int k], demo_mel 1 1)"
  by (simp add: ties17_batch_def)

lemma ties17_lens: "map (\<lambda>x. int (length (fst x))) ties17_batch = replicate 17 1"
  by (simp add: ties17_batch_def o_def map_replicate_const)

lemma upt_17: "[0..<17] = [0, 1, 2, 3, 4, 5, 6, 7, 8, 9, 10, 11, 12, 13, 14, 15, 16]"
  by (simp add: upt_rec)

lemma ties17_sort_ok:
  "sort_desc_ok (map (\<lambda>x. int (length (fst x))) ties17_batch)
     (ties17_sort (map (\<lambda>x. int (length (fst x))) ties17_batch))"
proof -
  let ?ids = "[8, 16, 15, 14, 13, 12, 11, 10, 9, 0, 7, 6, 5, 4, 3, 2, 1::nat]"
  have a: "sort ?ids = [0..<17]"
    unfolding upt_17 by simp
  have b1: "map (\<lambda>k. replicate 17 (1::int) ! k) ?ids = map (\<lambda>k. 1) ?ids"
    by (rule map_cong) auto
  have b2: "replicate 17 (1::int) = map (\<lambda>k. 1) ?ids"
    by (simp add: eval_nat_numeral)
  have b: "replicate 17 (1::int) = map (\<lambda>k. replicate 17 1 ! k) ?ids"
    by (rule trans [OF b2 b1 [symmetric]])
  have c: "sorted (rev (replicate 17 (1::int)))" by simp
  have l: "length (replicate 17 (1::int)) = 17" by simp
  show ?thesis
    unfolding ties17_lens sort_desc_ok_def ties17_sort_def fst_conv snd_conv l
    using a b c by blast
qed

lemma ties17_stable:
  "stable_desc_ids (map (\<lambda>x. int (length (fst x))) ties17_batch) = [0..<17]"
proof -
  have "map (\<lambda>k. - (replicate 17 (1::int) ! k)) [0..<17] = map (\<lambda>k. - 1) [0..<17]"
    by (rule map_cong) simp_all
  then have "sorted (map (\<lambda>k. - (replicate 17 (1::int) ! k)) [0..<17])"
    by (simp add: map_replicate_const)
  then show ?thesis
    unfolding stable_desc_ids_def ties17_lens by (simp add: sort_key_id_if_sorted)
qed

text \<open>
  C4 as stated fails: the seventeen examples of \<open>ties17_batch\<close> have the same input
  length, \<^verbatim>\<open>torch.sort\<close> answers with the indices \<open>8, 16, 15, \<dots>\<close>, and the collator puts
  example \<open>8\<close> (symbol \<open>108\<close>) in row \<open>0\<close>, where the stable order has example \<open>0\<close>
  (symbol \<open>100\<close>).
\<close>

theorem stable_ties_counterexample:
  "sort_desc_ok (map (\<lambda>x. int (length (fst x))) ties17_batch)
     (ties17_sort (map (\<lambda>x. int (length (fst x))) ties17_batch)) \<and>
   collate ties17_sort (\<lambda>x. x) (\<lambda>i. - 1) 1 ties17_batch =
     Inr (projr (collate ties17_sort (\<lambda>x. x) (\<lambda>i. - 1) 1 ties17_batch)) \<and>
   stable_desc_ids (map (\<lambda>x. int (length (fst x))) ties17_batch) ! 0 = 0 \<and>
   at2 (text_padded (projr (collate ties17_sort (\<lambda>x. x) (\<lambda>i. - 1) 1 ties17_batch))) 0 0 = 108 \<and>
   fst (ties17_batch ! 0) ! 0 = 100 \<and>
   \<not> row_is_example (\<lambda>x. x) (projr (collate ties17_sort (\<lambda>x. x) (\<lambda>i. - 1) 1 ties17_batch)) 0
       (ties17_batch ! (stable_desc_ids (map (\<lambda>x. int (length (fst x))) ties17_batch) ! 0))"
proof -
  let ?lens = "map (\<lambda>x. int (length (fst x))) ties17_batch"
  have N: "length ties17_batch = 17" by (simp add: ties17_batch_def)
  have ne: "ties17_batch \<noteq> []" using N by auto
  have ch: "\<forall>x \<in> set ties17_batch. size0 (snd x) = size0 (snd (hd ties17_batch))"
    by (auto simp: ties17_batch_def demo_mel_def hd_map upt_17)
  from collate_total [where batch = ties17_batch and n = 1 and torch_sort = ties17_sort
      and uninit = "\<lambda>i. - 1" and float32_of = "\<lambda>x. x", OF ne _ ch ties17_sort_ok]
  obtain r where c: "collate ties17_sort (\<lambda>x. x) (\<lambda>i. - 1) 1 ties17_batch = Inr r"
    by auto
  then have pr: "projr (collate ties17_sort (\<lambda>x. x) (\<lambda>i. - 1) 1 ties17_batch) = r" by simp
  have row0: "example_of_row ties17_sort ties17_batch 0 = ([108], demo_mel 1 1)"
    by (simp add: example_of_row_def ties17_sort_def ties17_nth)
  from collate_rows [OF c ties17_sort_ok] N
  have r0: "row_is_example (\<lambda>x. x) r 0 (example_of_row ties17_sort ties17_batch 0)"
    and w: "length (fst (example_of_row ties17_sort ties17_batch 0)) \<le> size1 (text_padded r)"
    by simp_all
  from w have w0: "0 \<in> {0..<size1 (text_padded r)}" by (simp add: row0)
  from r0 w0 have cell: "at2 (text_padded r) 0 0 = 108"
    unfolding row_is_example_def row0 by auto
  have st: "stable_desc_ids ?lens ! 0 = 0" by (simp add: ties17_stable)
  have e0: "ties17_batch ! 0 = ([100], demo_mel 1 1)" using ties17_nth [of 0] by simp
  have "\<not> row_is_example (\<lambda>x. x) r 0 (ties17_batch ! 0)"
    unfolding row_is_example_def e0 using cell w0 by auto
  with st cell e0 ties17_sort_ok c pr show ?thesis by simp
qed

end
